theory Spec2Isabelle
  imports Main "HOL-Library.Word"
begin

unbundle bit_operations_syntax

section \<open>elfrc: a resource compiler for ELF files\<close>

text \<open>
  A shallow embedding of \<^verbatim>\<open>elfrc.c\<close>. The program reads a manifest
  (\<^verbatim>\<open>loadResources\<close>, \<^verbatim>\<open>parseResourceFileData\<close>, \<^verbatim>\<open>registerResource\<close>), lays the
  resources out (\<^verbatim>\<open>patchHeaders\<close>, \<^verbatim>\<open>padding\<close>) and copies their files into the
  \<^verbatim>\<open>.rodata\<close> section (\<^verbatim>\<open>writeFiles\<close>, \<^verbatim>\<open>copyFileToFD\<close>).

  Conventions of the embedding.
  \<^item> \<^verbatim>\<open>unsigned int\<close> and \<^verbatim>\<open>int\<close> are 32 bits wide, and the program is compiled for
    the 64-bit class of ELF: \<^verbatim>\<open>ElfW(Shdr)\<close> is \<^verbatim>\<open>Elf64_Shdr\<close>, whose \<^verbatim>\<open>sh_offset\<close>,
    \<^verbatim>\<open>sh_size\<close> and \<^verbatim>\<open>sh_addralign\<close> are unsigned and 64 bits wide, and \<^verbatim>\<open>ElfW(Sym)\<close>
    is \<^verbatim>\<open>Elf64_Sym\<close>.
  \<^item> The three accumulators of \<^verbatim>\<open>patchHeaders\<close> are \<^verbatim>\<open>int\<close>s. In the loop they are
    only ever added to \<^verbatim>\<open>unsigned int\<close> and \<^verbatim>\<open>size_t\<close> values and converted back,
    which reduces modulo \<open>2 ^ 32\<close>, so they are \<open>32 word\<close>s whose \<open>+\<close> wraps. An
    \<^verbatim>\<open>int\<close> assigned to a field of 64 bits is sign-extended (\<open>scast\<close>); an
    \<^verbatim>\<open>unsigned int\<close> compared or combined with such a field is zero-extended
    (\<open>ucast\<close>). The one addition of two \<^verbatim>\<open>int\<close>s, \<^verbatim>\<open>symtabSize + strtabSize\<close>, is
    taken in the 32 bits of the machine, where it wraps; C leaves an overflow of it
    undefined.
  \<^item> The field lengths \<^verbatim>\<open>curTypeLen\<close>, \<^verbatim>\<open>curSymbolLen\<close>, \<^verbatim>\<open>curFilenameLen\<close> never
    exceed the size of their buffer, and \<^verbatim>\<open>align\<close> never exceeds twice the pointer
    width, so they are \<open>nat\<close> and \<open>int\<close>.
  \<^item> A byte is a \<open>char\<close>; a \<^verbatim>\<open>char\<close> array is a list of its declared length; a C
    string is what \<^verbatim>\<open>strlen\<close>, \<^verbatim>\<open>strcmp\<close>, \<^verbatim>\<open>strdup\<close> and \<^verbatim>\<open>stat\<close> read of an
    array: the bytes before the first NUL.
  \<^item> A store past the end of an array is undefined behaviour in C; the model stops
    there with the result \<open>BufferOverrun\<close>. What the program does after such a store
    is not described by the model.
  \<^item> Messages printed on \<^verbatim>\<open>stderr\<close> are collected in the field \<open>err\<close>. The
    messages that \<^verbatim>\<open>verbosity > 0\<close> prints on \<^verbatim>\<open>stdout\<close> change nothing and are
    left out.
\<close>

subsection \<open>Constants of the platform\<close>

text \<open>
  The values that the system headers decide: \<^verbatim>\<open>sizeof( void * ) * 8\<close>, the sizes
  of \<^verbatim>\<open>ElfW(Ehdr)\<close>, \<^verbatim>\<open>ElfW(Shdr)\<close> and \<^verbatim>\<open>ElfW(Sym)\<close>, and \<^verbatim>\<open>PATH_MAX\<close>;
  \<open>linux_amd64\<close> holds their values on Linux for x86-64.
\<close>

record platform =
  pointer_bits :: int
  sizeof_Ehdr :: nat
  sizeof_Shdr :: nat
  sizeof_Sym :: nat
  PATH_MAX :: nat

definition linux_amd64 :: platform where
  "linux_amd64 = \<lparr>pointer_bits = 64, sizeof_Ehdr = 64, sizeof_Shdr = 64,
                   sizeof_Sym = 24, PATH_MAX = 4096\<rparr>"

definition SECTIONHEADERCOUNT :: nat where
  "SECTIONHEADERCOUNT = 9"

definition TOTALHEADERSIZE :: "platform \<Rightarrow> nat" where
  "TOTALHEADERSIZE pf = sizeof_Ehdr pf + sizeof_Shdr pf * SECTIONHEADERCOUNT"

subsection \<open>Data\<close>

datatype ResourceType = TEXT | BINARY

text \<open>
  \<^verbatim>\<open>struct Resource\<close>. The list of resources is the chain of \<^verbatim>\<open>next\<close> pointers
  from \<^verbatim>\<open>resources\<close>; \<open>size_r\<close> is the field \<^verbatim>\<open>size\<close>, and \<open>ignore\<close> is \<open>True\<close>
  for \<^verbatim>\<open>TRUE\<close>.
\<close>

record Resource =
  type :: ResourceType
  symbol :: string
  symbolSize :: "32 word"
  filename :: string
  size_r :: "32 word"
  ignore :: bool
  payloadOffset :: "32 word"
  strtabOffset :: "32 word"

text \<open>
  The fields of a section header (\<^verbatim>\<open>Elf64_Off\<close>, \<^verbatim>\<open>Elf64_Xword\<close>, \<^verbatim>\<open>Elf64_Xword\<close>) and
  of the ELF header that the program patches.
\<close>

record Shdr =
  sh_offset :: "64 word"
  sh_size :: "64 word"
  sh_addralign :: "64 word"

record Ehdr =
  e_machine :: "16 word"
  ei_osabi :: "8 word"
  ei_abiversion :: "8 word"
  e_flags :: "32 word"

datatype ParseState = ReadType | ReadSymbol | ReadFilename

text \<open>What the program prints on \<^verbatim>\<open>stderr\<close>, with the arguments of each format.\<close>

datatype message =
    EofExpectedSymbol
  | EofExpectedFilename
  | FailedToAccess "32 word" string
  | UnknownTypeWarning string "32 word"
  | TypeGotNewline "32 word"
  | TypeTooLong "32 word" string
  | SymbolGotNewline "32 word"
  | SymbolTooLong "32 word" string
  | FilenameTooLong "32 word" string
  | FailedToOpen string
  | FailedToRead "string option"

text \<open>
  The memory of the process: the globals and the \<^verbatim>\<open>static\<close> locals of
  \<^verbatim>\<open>parseResourceFileData\<close>.
\<close>

record elfrc =
  resources :: "Resource list"
  hdr :: Ehdr
  rodataHeader :: Shdr
  symtabHeader :: Shdr
  strtabHeader :: Shdr
  state :: ParseState
  curType :: "char list"
  curTypeLen :: nat
  curSymbol :: "char list"
  curSymbolLen :: nat
  curFilename :: "char list"
  curFilenameLen :: nat
  lineno :: "32 word"
  err :: "message list"

text \<open>
  What the program meets outside its memory while it parses: the file sizes \<^verbatim>\<open>stat\<close>
  reports (\<open>None\<close> when \<^verbatim>\<open>stat\<close> fails; the files do not change while the manifest
  is read), and the contents of the block that the \<open>n\<close>-th call of
  \<^verbatim>\<open>malloc( sizeof( struct Resource ) )\<close> returns.
\<close>

record environment =
  stat_size :: "string \<Rightarrow> nat option"
  malloc_Resource :: "nat \<Rightarrow> Resource"

text \<open>The result of a call: \<^verbatim>\<open>return 0\<close>, \<^verbatim>\<open>return -1\<close>, or an out-of-bounds store.\<close>

datatype ret = Ok | Error | BufferOverrun

subsection \<open>Arrays and C strings\<close>

definition c_str :: "char list \<Rightarrow> string" where
  "c_str buf = takeWhile (\<lambda>c. c \<noteq> CHR 0x00) buf"

definition store :: "char list \<Rightarrow> nat \<Rightarrow> char \<Rightarrow> char list option" where
  "store buf i c = (if i < length buf then Some (buf[i := c]) else None)"

definition strncpy :: "string \<Rightarrow> nat \<Rightarrow> char list" where
  "strncpy src n = take n src @ replicate (n - length src) (CHR 0x00)"

subsection \<open>The static data\<close>

definition commentData :: string where
  "commentData = ''Created by elfrc 0.7 Copyright (C) 2006 Frerich Raabe <raabe@kde.org>''"

text \<open>
  The initial memory. \<^verbatim>\<open>sizeof( shstrtabData )\<close> is 61, and the \<^verbatim>\<open>sizeof\<close> of a
  string literal counts its closing NUL. \<^verbatim>\<open>lineno\<close> has no initialiser, so it starts
  at 0 as every static does.
\<close>

definition initial :: "platform \<Rightarrow> elfrc" where
  "initial pf =
     \<lparr>resources = [],
      hdr = \<lparr>e_machine = 0, ei_osabi = 0, ei_abiversion = 0, e_flags = 0\<rparr>,
      rodataHeader = \<lparr>sh_offset = of_nat (TOTALHEADERSIZE pf + (length commentData + 1) + 61),
                      sh_size = 0, sh_addralign = 0\<rparr>,
      symtabHeader = \<lparr>sh_offset = of_nat (TOTALHEADERSIZE pf + (length commentData + 1) + 61),
                      sh_size = 0, sh_addralign = 4\<rparr>,
      strtabHeader = \<lparr>sh_offset = of_nat (TOTALHEADERSIZE pf + (length commentData + 1) + 61),
                      sh_size = 0, sh_addralign = 1\<rparr>,
      state = ReadType,
      curType = replicate 32 (CHR 0x00), curTypeLen = 0,
      curSymbol = replicate 256 (CHR 0x00), curSymbolLen = 0,
      curFilename = replicate (PATH_MAX pf) (CHR 0x00), curFilenameLen = 0,
      lineno = 0,
      err = []\<rparr>"

subsection \<open>The resource registry\<close>

text \<open>
  \<^verbatim>\<open>registerResource\<close>. \<open>fresh\<close> is the block \<^verbatim>\<open>malloc\<close> returned: the function
  stores \<^verbatim>\<open>type\<close>, \<^verbatim>\<open>symbol\<close>, \<^verbatim>\<open>symbolSize\<close>, \<^verbatim>\<open>filename\<close>, \<^verbatim>\<open>size\<close> and \<^verbatim>\<open>next\<close>
  and leaves the other fields as they came. \<open>filesize\<close> is \<^verbatim>\<open>sb.st_size\<close>, which the
  \<^verbatim>\<open>unsigned int\<close> parameter truncates.
\<close>

definition registerResource ::
  "Resource \<Rightarrow> ResourceType \<Rightarrow> char list \<Rightarrow> char list \<Rightarrow> nat \<Rightarrow> elfrc \<Rightarrow> elfrc" where
  "registerResource fresh ty name fn filesize g =
     (let res = fresh\<lparr>type := ty,
                      symbol := c_str name,
                      symbolSize := of_nat (length (c_str name)) + 1,
                      filename := c_str fn,
                      size_r := of_nat filesize\<rparr>;
          res = (if ty = TEXT then res\<lparr>size_r := size_r res + 1\<rparr> else res)
      in g\<lparr>resources := resources g @ [res]\<rparr>)"

subsection \<open>The manifest parser\<close>

text \<open>
  The block that the end of input and a line break in \<^verbatim>\<open>ReadFilename\<close> share: close
  the file name, \<^verbatim>\<open>stat\<close> it, choose the type and register. \<open>ty\<close> is the local
  variable \<^verbatim>\<open>type\<close> of \<^verbatim>\<open>parseResourceFileData\<close>, which is not static: every call
  starts it at 0, which is \<^verbatim>\<open>TEXT\<close>, and within a call it keeps the value that the
  last record of that call gave it. The two tests assign it only when \<^verbatim>\<open>curType\<close> is
  one of the two words; otherwise the resource is registered with the value it has.
\<close>

definition finishRecord ::
  "environment \<Rightarrow> ResourceType \<Rightarrow> elfrc \<Rightarrow> ret \<times> ResourceType \<times> elfrc" where
  "finishRecord env ty g =
     (case store (curFilename g) (curFilenameLen g) (CHR 0x00) of
        None \<Rightarrow> (BufferOverrun, ty, g)
      | Some fn \<Rightarrow>
          let g = g\<lparr>curFilename := fn\<rparr> in
          (case stat_size env (c_str fn) of
             None \<Rightarrow> (Error, ty, g\<lparr>err := err g @ [FailedToAccess (lineno g) (c_str fn)]\<rparr>)
           | Some st_size \<Rightarrow>
               let ty = (if c_str (curType g) = ''text'' then TEXT
                         else if c_str (curType g) = ''binary'' then BINARY
                         else ty)
               in (Ok, ty, registerResource (malloc_Resource env (length (resources g)))
                             ty (curSymbol g) fn st_size g)))"

text \<open>The branch \<^verbatim>\<open>if ( !buffer )\<close>, which the call enters with \<^verbatim>\<open>type\<close> at 0.\<close>

definition parseEOF :: "environment \<Rightarrow> elfrc \<Rightarrow> ret \<times> elfrc" where
  "parseEOF env g =
     (case state g of
        ReadType \<Rightarrow> (Error, g\<lparr>err := err g @ [EofExpectedSymbol]\<rparr>)
      | ReadSymbol \<Rightarrow> (Error, g\<lparr>err := err g @ [EofExpectedFilename]\<rparr>)
      | ReadFilename \<Rightarrow> (case finishRecord env TEXT g of (r, ty, g) \<Rightarrow> (r, g)))"

text \<open>
  The body of the \<^verbatim>\<open>for\<close> loop, for the byte \<open>c\<close>; \<open>ty\<close> is the local \<^verbatim>\<open>type\<close>
  before the body and the second component of the result is \<^verbatim>\<open>type\<close> after it.
\<close>

definition parseChar ::
  "environment \<Rightarrow> char \<Rightarrow> ResourceType \<Rightarrow> elfrc \<Rightarrow> ret \<times> ResourceType \<times> elfrc" where
  "parseChar env c ty g =
     (case state g of
        ReadType \<Rightarrow>
          if c = CHR 0x09 then
            (case store (curType g) (curTypeLen g) (CHR 0x00) of
               None \<Rightarrow> (BufferOverrun, ty, g)
             | Some buf \<Rightarrow>
                 let g = g\<lparr>curType := buf\<rparr>;
                     g = (if c_str buf \<noteq> ''text'' \<and> c_str buf \<noteq> ''binary''
                          then g\<lparr>err := err g @ [UnknownTypeWarning (c_str buf) (lineno g)],
                                 curType := strncpy ''binary'' (length buf)\<rparr>
                          else g)
                 in (Ok, ty, g\<lparr>state := ReadSymbol, curSymbolLen := 0\<rparr>))
          else if c = CHR 0x0A then
            (Error, ty, g\<lparr>err := err g @ [TypeGotNewline (lineno g)]\<rparr>)
          else if curTypeLen g < length (curType g) then
            (Ok, ty, g\<lparr>curType := (curType g)[curTypeLen g := c],
                   curTypeLen := curTypeLen g + 1\<rparr>)
          else
            (case store (curType g) (curTypeLen g - 1) (CHR 0x00) of
               None \<Rightarrow> (BufferOverrun, ty, g)
             | Some buf \<Rightarrow>
                 (Error, ty, g\<lparr>curType := buf,
                               err := err g @ [TypeTooLong (lineno g) (c_str buf)]\<rparr>))
      | ReadSymbol \<Rightarrow>
          if c = CHR 0x09 then
            (case store (curSymbol g) (curSymbolLen g) (CHR 0x00) of
               None \<Rightarrow> (BufferOverrun, ty, g)
             | Some name \<Rightarrow>
                 (Ok, ty, g\<lparr>curSymbol := name, state := ReadFilename, curFilenameLen := 0\<rparr>))
          else if c = CHR 0x0A then
            (Error, ty, g\<lparr>err := err g @ [SymbolGotNewline (lineno g)]\<rparr>)
          else if curSymbolLen g < length (curSymbol g) then
            (Ok, ty, g\<lparr>curSymbol := (curSymbol g)[curSymbolLen g := c],
                   curSymbolLen := curSymbolLen g + 1\<rparr>)
          else
            (case store (curSymbol g) (curSymbolLen g - 1) (CHR 0x00) of
               None \<Rightarrow> (BufferOverrun, ty, g)
             | Some name \<Rightarrow>
                 (Error, ty, g\<lparr>curSymbol := name,
                           err := err g @ [SymbolTooLong (lineno g) (c_str name)]\<rparr>))
      | ReadFilename \<Rightarrow>
          if c = CHR 0x0A then
            (case finishRecord env ty g of
               (Ok, ty, g) \<Rightarrow>
                 (Ok, ty, g\<lparr>state := ReadType, curTypeLen := 0, lineno := lineno g + 1\<rparr>)
             | failed \<Rightarrow> failed)
          else if curFilenameLen g < length (curFilename g) then
            (Ok, ty, g\<lparr>curFilename := (curFilename g)[curFilenameLen g := c],
                   curFilenameLen := curFilenameLen g + 1\<rparr>)
          else
            (case store (curFilename g) (curFilenameLen g - 1) (CHR 0x00) of
               None \<Rightarrow> (BufferOverrun, ty, g)
             | Some fn \<Rightarrow>
                 (Error, ty, g\<lparr>curFilename := fn,
                           err := err g @ [FilenameTooLong (lineno g) (c_str fn)]\<rparr>)))"

text \<open>The \<^verbatim>\<open>for\<close> loop over the bytes of the buffer; it returns at the first error.\<close>

fun parseLoop ::
  "environment \<Rightarrow> char list \<Rightarrow> ResourceType \<Rightarrow> elfrc \<Rightarrow> ret \<times> ResourceType \<times> elfrc" where
  "parseLoop env [] ty g = (Ok, ty, g)"
| "parseLoop env (c # cs) ty g =
     (case parseChar env c ty g of
        (Ok, ty', g') \<Rightarrow> parseLoop env cs ty' g'
      | failed \<Rightarrow> failed)"

text \<open>
  A call with a buffer: \<^verbatim>\<open>int type = 0\<close>, then the loop. The local does not outlive
  the call.
\<close>

definition parseBytes :: "environment \<Rightarrow> char list \<Rightarrow> elfrc \<Rightarrow> ret \<times> elfrc" where
  "parseBytes env cs g = (case parseLoop env cs TEXT g of (r, ty, g') \<Rightarrow> (r, g'))"

text \<open>
  \<^verbatim>\<open>parseResourceFileData\<close>: \<open>None\<close> is the null buffer that signals the end of the
  input, \<open>Some cs\<close> a buffer of \<open>length cs\<close> bytes.
\<close>

definition parseResourceFileData :: "environment \<Rightarrow> char list option \<Rightarrow> elfrc \<Rightarrow> ret \<times> elfrc" where
  "parseResourceFileData env buffer g =
     (case buffer of
        None \<Rightarrow> parseEOF env g
      | Some cs \<Rightarrow> parseBytes env cs g)"

text \<open>
  A descriptor open for reading is the list of what the successive calls of \<^verbatim>\<open>read\<close>
  return, \<open>ReadFailed\<close> for -1; a \<^verbatim>\<open>read\<close> after the last one returns 0 bytes.
  \<open>close_ok\<close> says whether \<^verbatim>\<open>close\<close> returns 0.
\<close>

datatype read_result = ReadFailed | ReadBytes "char list"

record fd_in =
  reads :: "read_result list"
  close_ok :: bool

text \<open>
  The \<^verbatim>\<open>do ... while\<close> loop of \<^verbatim>\<open>loadResources\<close>, with its buffer of 1024 bytes.
\<close>

fun readLoop :: "environment \<Rightarrow> string option \<Rightarrow> read_result list \<Rightarrow> elfrc \<Rightarrow> ret \<times> elfrc" where
  "readLoop env fn [] g = parseResourceFileData env (Some []) g"
| "readLoop env fn (ReadFailed # rest) g = (Error, g\<lparr>err := err g @ [FailedToRead fn]\<rparr>)"
| "readLoop env fn (ReadBytes buffer # rest) g =
     (case parseResourceFileData env (Some buffer) g of
        (Ok, g') \<Rightarrow> if length buffer = 1024 then readLoop env fn rest g' else (Ok, g')
      | failed \<Rightarrow> failed)"

text \<open>
  The descriptor \<^verbatim>\<open>loadResources\<close> reads from. \<open>fn\<close> is \<open>None\<close> for a null
  pointer; \<open>stdin\<close> is the standard input and \<open>open_file\<close> what
  \<^verbatim>\<open>open( fn, O_RDONLY )\<close> gives, \<open>None\<close> for -1.
\<close>

definition openManifest ::
  "fd_in \<Rightarrow> (string \<Rightarrow> fd_in option) \<Rightarrow> string option \<Rightarrow> message + fd_in" where
  "openManifest stdin open_file fn =
     (case fn of
        None \<Rightarrow> Inr stdin
      | Some name \<Rightarrow>
          if name = ''-'' then Inr stdin
          else (case open_file name of
                  None \<Rightarrow> Inl (FailedToOpen name)
                | Some fd \<Rightarrow> Inr fd))"

text \<open>
  \<^verbatim>\<open>loadResources\<close>. The value of the closing call
  \<^verbatim>\<open>parseResourceFileData( 0, 0 )\<close> is not looked at: the function returns what
  \<^verbatim>\<open>close\<close> returns.
\<close>

definition loadResources ::
  "environment \<Rightarrow> fd_in \<Rightarrow> (string \<Rightarrow> fd_in option) \<Rightarrow> string option \<Rightarrow> elfrc \<Rightarrow> ret \<times> elfrc" where
  "loadResources env stdin open_file fn g =
     (case openManifest stdin open_file fn of
        Inl m \<Rightarrow> (Error, g\<lparr>err := err g @ [m]\<rparr>)
      | Inr fd \<Rightarrow>
          (case readLoop env fn (reads fd) g of
             (Ok, g) \<Rightarrow>
               (case parseResourceFileData env None g of
                  (BufferOverrun, g) \<Rightarrow> (BufferOverrun, g)
                | (_, g) \<Rightarrow> (if close_ok fd then Ok else Error, g))
           | failed \<Rightarrow> failed))"

subsection \<open>The layout\<close>

text \<open>
  An entry of the symbol table. \<^verbatim>\<open>Elf64_Sym\<close> declares its members in the order
  \<^verbatim>\<open>st_name\<close>, \<^verbatim>\<open>st_info\<close>, \<^verbatim>\<open>st_other\<close>, \<^verbatim>\<open>st_shndx\<close>, \<^verbatim>\<open>st_value\<close>, \<^verbatim>\<open>st_size\<close>
  (24 bytes).
\<close>

record Sym =
  st_name :: "32 word"
  st_info :: "8 word"
  st_other :: "8 word"
  st_shndx :: "16 word"
  st_value :: "64 word"
  st_size :: "64 word"

definition STT_NOTYPE :: int where "STT_NOTYPE = 0"
definition STT_SECTION :: int where "STT_SECTION = 3"
definition STT_FILE :: int where "STT_FILE = 4"
definition STB_LOCAL :: int where "STB_LOCAL = 0"
definition STV_DEFAULT :: int where "STV_DEFAULT = 0"
definition STN_UNDEF :: int where "STN_UNDEF = 0"
definition SHN_ABS :: int where "SHN_ABS = 0xfff1"

definition ELF_ST_INFO :: "int \<Rightarrow> int \<Rightarrow> int" where
  "ELF_ST_INFO x y = push_bit 4 x + (y AND 0xf)"

text \<open>
  An initialiser \<^verbatim>\<open>{ a, b, c, d, e, f }\<close> of an entry. It has no designators, so its six
  values initialise the members in the order of their declaration, each converted to the
  type of its member.
\<close>

definition Sym_initializer :: "int \<Rightarrow> int \<Rightarrow> int \<Rightarrow> int \<Rightarrow> int \<Rightarrow> int \<Rightarrow> Sym" where
  "Sym_initializer a b c d e f =
     \<lparr>st_name = of_int a, st_info = of_int b, st_other = of_int c, st_shndx = of_int d,
      st_value = of_int e, st_size = of_int f\<rparr>"

text \<open>
  The static table \<^verbatim>\<open>symtabData\<close>, with the values of each initialiser in the order of the
  source, which comments them as name, value, size, type and binding, visibility and
  section index.
\<close>

definition symtabData :: "Sym list" where
  "symtabData =
     [Sym_initializer 0 0 0 (ELF_ST_INFO STB_LOCAL STT_NOTYPE) STV_DEFAULT STN_UNDEF,
      Sym_initializer 0 0 0 (ELF_ST_INFO STB_LOCAL STT_FILE) STV_DEFAULT SHN_ABS,
      Sym_initializer 0 0 0 (ELF_ST_INFO STB_LOCAL STT_SECTION) STV_DEFAULT 1,
      Sym_initializer 0 0 0 (ELF_ST_INFO STB_LOCAL STT_SECTION) STV_DEFAULT 2,
      Sym_initializer 0 0 0 (ELF_ST_INFO STB_LOCAL STT_SECTION) STV_DEFAULT 3,
      Sym_initializer 0 0 0 (ELF_ST_INFO STB_LOCAL STT_SECTION) STV_DEFAULT 4,
      Sym_initializer 0 0 0 (ELF_ST_INFO STB_LOCAL STT_SECTION) STV_DEFAULT 5]"

text \<open>
  \<^verbatim>\<open>padding\<close>, which reads the alignment of \<^verbatim>\<open>.rodata\<close> from its header. \<^verbatim>\<open>size\<close> and
  \<^verbatim>\<open>~size\<close> are \<^verbatim>\<open>unsigned int\<close>s, zero-extended to the 64 bits of \<^verbatim>\<open>sh_addralign\<close>;
  the \<^verbatim>\<open>return\<close> truncates to \<^verbatim>\<open>unsigned int\<close>.
\<close>

definition padding :: "elfrc \<Rightarrow> 32 word \<Rightarrow> 32 word" where
  "padding g sz =
     (if ucast sz = sh_addralign (rodataHeader g) then 0
      else ucast (((sh_addralign (rodataHeader g) - 1) AND ucast (NOT sz)) + 1))"

text \<open>
  The loop \<^verbatim>\<open>while ( align < sizeof(void * ) * 8 && it->size > align ) align <<= 1\<close>.
  It starts from 1 in the program; from 0 it would not end, so the result is an option.
\<close>

partial_function (option) alignLoop :: "int \<Rightarrow> 32 word \<Rightarrow> int \<Rightarrow> int option" where
  "alignLoop bits sz align =
     (if align < bits \<and> uint sz > align
      then alignLoop bits sz (align * 2)
      else Some align)"

text \<open>The first loop over the resources: the alignment needed for \<^verbatim>\<open>.rodata\<close>.\<close>

fun maxalignLoop :: "platform \<Rightarrow> Resource list \<Rightarrow> int \<Rightarrow> int option" where
  "maxalignLoop pf [] maxalign = Some maxalign"
| "maxalignLoop pf (it # rest) maxalign =
     (case alignLoop (pointer_bits pf) (size_r it) 1 of
        None \<Rightarrow> None
      | Some align \<Rightarrow> maxalignLoop pf rest (if align > maxalign then align else maxalign))"

text \<open>
  The second loop: the sizes of the payload, the symbol table and the string table, and
  the two offsets of each resource. \<open>rest \<noteq> []\<close> is \<^verbatim>\<open>it->next != 0\<close>.
\<close>

fun sizeLoop ::
  "platform \<Rightarrow> elfrc \<Rightarrow> Resource list \<Rightarrow> 32 word \<times> 32 word \<times> 32 word
     \<Rightarrow> Resource list \<times> 32 word \<times> 32 word \<times> 32 word" where
  "sizeLoop pf g [] sizes = ([], sizes)"
| "sizeLoop pf g (it # rest) (payloadSize, symtabSize, strtabSize) =
     (let it = it\<lparr>payloadOffset := payloadSize\<rparr>;
          payloadSize = payloadSize + size_r it;
          symtabSize = symtabSize + of_nat (sizeof_Sym pf);
          it = it\<lparr>strtabOffset := strtabSize\<rparr>;
          strtabSize = strtabSize + symbolSize it;
          payloadSize = (if rest \<noteq> [] then payloadSize + padding g (size_r it)
                         else payloadSize);
          (rest, sizes) = sizeLoop pf g rest (payloadSize, symtabSize, strtabSize)
      in (it # rest, sizes))"

text \<open>
  The block \<^verbatim>\<open>if ( !archhdr )\<close> of \<^verbatim>\<open>patchHeaders\<close>: the header that the machine
  and the ABI are taken from, or the message of the failure. \<open>archhdr\<close> is \<open>None\<close>
  for a null pointer; \<open>own\<close> is what opening and reading the header of
  \<^verbatim>\<open>pathToSelf\<close> gives.
\<close>

datatype own_header = OpenFails | ReadFails | OwnHeader Ehdr

definition archHeader :: "string \<Rightarrow> own_header \<Rightarrow> Ehdr option \<Rightarrow> message + Ehdr" where
  "archHeader pathToSelf own archhdr =
     (case archhdr of
        Some h \<Rightarrow> Inr h
      | None \<Rightarrow>
          (case own of
             OpenFails \<Rightarrow> Inl (FailedToOpen pathToSelf)
           | ReadFails \<Rightarrow> Inl (FailedToRead (Some pathToSelf))
           | OwnHeader h \<Rightarrow> Inr h))"

text \<open>
  \<^verbatim>\<open>patchHeaders\<close>. The result is \<open>None\<close> when the function does not return. The
  last five assignments store \<^verbatim>\<open>int\<close>s in fields of 64 bits.
\<close>

definition patchHeaders ::
  "platform \<Rightarrow> string \<Rightarrow> own_header \<Rightarrow> Ehdr option \<Rightarrow> elfrc \<Rightarrow> (ret \<times> elfrc) option" where
  "patchHeaders pf pathToSelf own archhdr g =
     (case archHeader pathToSelf own archhdr of
        Inl m \<Rightarrow> Some (Error, g\<lparr>err := err g @ [m]\<rparr>)
      | Inr h \<Rightarrow>
          (let g = g\<lparr>hdr := \<lparr>e_machine = e_machine h, ei_osabi = ei_osabi h,
                              ei_abiversion = ei_abiversion h, e_flags = e_flags h\<rparr>\<rparr>
           in case maxalignLoop pf (resources g) 1 of
                None \<Rightarrow> None
              | Some maxalign \<Rightarrow>
                  (let g = g\<lparr>rodataHeader := (rodataHeader g)\<lparr>sh_addralign := of_int maxalign\<rparr>\<rparr>;
                       (rs, payloadSize, symtabSize, strtabSize) =
                          sizeLoop pf g (resources g)
                            (0, of_nat (length symtabData * sizeof_Sym pf), 1);
                       g = g\<lparr>resources := rs\<rparr>;
                       g = g\<lparr>rodataHeader := (rodataHeader g)\<lparr>sh_size := scast payloadSize\<rparr>\<rparr>;
                       g = g\<lparr>rodataHeader := (rodataHeader g)
                               \<lparr>sh_offset := sh_offset (rodataHeader g) +
                                             scast (symtabSize + strtabSize)\<rparr>\<rparr>;
                       g = g\<lparr>symtabHeader := (symtabHeader g)\<lparr>sh_size := scast symtabSize\<rparr>\<rparr>;
                       g = g\<lparr>strtabHeader := (strtabHeader g)
                               \<lparr>sh_offset := sh_offset (strtabHeader g) + scast symtabSize\<rparr>\<rparr>;
                       g = g\<lparr>strtabHeader := (strtabHeader g)\<lparr>sh_size := scast strtabSize\<rparr>\<rparr>
                   in Some (Ok, g))))"

subsection \<open>The payload\<close>

text \<open>
  The descriptor of the object file: the bytes written so far, and how many more the
  device takes. \<open>write_fd\<close> is \<^verbatim>\<open>write\<close>: it stores all the bytes, or returns -1 (\<open>False\<close>) and stores
  none.
\<close>

record fd_out =
  written :: "char list"
  room :: nat

definition write_fd :: "fd_out \<Rightarrow> char list \<Rightarrow> bool \<times> fd_out" where
  "write_fd fd bytes =
     (if length bytes \<le> room fd
      then (True, fd\<lparr>written := written fd @ bytes, room := room fd - length bytes\<rparr>)
      else (False, fd))"

text \<open>The \<^verbatim>\<open>do ... while\<close> loop of \<^verbatim>\<open>copyFileToFD\<close>, with its buffer of 8192 bytes.\<close>

fun copyLoop :: "string \<Rightarrow> read_result list \<Rightarrow> fd_out \<Rightarrow> elfrc \<Rightarrow> ret \<times> fd_out \<times> elfrc" where
  "copyLoop src [] dst g =
     (case write_fd dst [] of
        (False, dst) \<Rightarrow> (Error, dst, g)
      | (True, dst) \<Rightarrow> (Ok, dst, g))"
| "copyLoop src (ReadFailed # rest) dst g =
     (Error, dst, g\<lparr>err := err g @ [FailedToRead (Some src)]\<rparr>)"
| "copyLoop src (ReadBytes buffer # rest) dst g =
     (case write_fd dst buffer of
        (False, dst) \<Rightarrow> (Error, dst, g)
      | (True, dst) \<Rightarrow>
          if length buffer = 8192 then copyLoop src rest dst g else (Ok, dst, g))"

text \<open>
  \<^verbatim>\<open>copyFileToFD\<close>: -1 when the file does not open, when a \<^verbatim>\<open>read\<close> or a \<^verbatim>\<open>write\<close>
  fails, and when \<^verbatim>\<open>close\<close> does.
\<close>

definition copyFileToFD ::
  "(string \<Rightarrow> fd_in option) \<Rightarrow> string \<Rightarrow> fd_out \<Rightarrow> elfrc \<Rightarrow> ret \<times> fd_out \<times> elfrc" where
  "copyFileToFD open_file src dst g =
     (case open_file src of
        None \<Rightarrow> (Error, dst, g\<lparr>err := err g @ [FailedToOpen src]\<rparr>)
      | Some fd \<Rightarrow>
          (case copyLoop src (reads fd) dst g of
             (Ok, dst, g) \<Rightarrow> (if close_ok fd then Ok else Error, dst, g)
           | failed \<Rightarrow> failed))"

text \<open>The loop \<^verbatim>\<open>for ( i = 0; i < npad; ++i ) write( fd, "\0", 1 )\<close>.\<close>

fun writeZeros :: "nat \<Rightarrow> fd_out \<Rightarrow> fd_out" where
  "writeZeros 0 fd = fd"
| "writeZeros (Suc n) fd = writeZeros n (snd (write_fd fd [CHR 0x00]))"

text \<open>
  The loop of \<^verbatim>\<open>writeFiles\<close> from the resource \<open>it\<close> on. \<^verbatim>\<open>npad\<close> is an \<^verbatim>\<open>int\<close>, so
  the loop of the padding runs \<open>nat (sint npad)\<close> times.
\<close>

fun writeFilesLoop ::
  "(string \<Rightarrow> fd_in option) \<Rightarrow> Resource list \<Rightarrow> fd_out \<Rightarrow> elfrc
     \<Rightarrow> Resource list \<times> fd_out \<times> elfrc" where
  "writeFilesLoop open_file [] fd g = ([], fd, g)"
| "writeFilesLoop open_file (it # rest) fd g =
     (case copyFileToFD open_file (filename it) fd g of
        (Error, fd, g) \<Rightarrow>
          (let (rest', fd, g) = writeFilesLoop open_file rest fd g
           in (it\<lparr>ignore := True\<rparr> # rest', fd, g))
      | (_, fd, g) \<Rightarrow>
          (let it = it\<lparr>ignore := False\<rparr>;
               fd = (if type it = TEXT then snd (write_fd fd [CHR 0x00]) else fd);
               fd = (if rest \<noteq> []
                     then writeZeros (nat (sint (padding g (size_r it)))) fd
                     else fd);
               (rest', fd, g) = writeFilesLoop open_file rest fd g
           in (it # rest', fd, g)))"

definition writeFiles ::
  "(string \<Rightarrow> fd_in option) \<Rightarrow> fd_out \<Rightarrow> elfrc \<Rightarrow> ret \<times> fd_out \<times> elfrc" where
  "writeFiles open_file fd g =
     (let (rs, fd, g) = writeFilesLoop open_file (resources g) fd g
      in (Ok, fd, g\<lparr>resources := rs\<rparr>))"

subsection \<open>The main program, up to the writing of the object file\<close>

text \<open>
  The two steps of \<^verbatim>\<open>main\<close> between the options and \<^verbatim>\<open>writeELFRelocatable\<close>:
  \<^verbatim>\<open>if ( loadResources( argv[0] ) == -1 ) return -1\<close> and
  \<^verbatim>\<open>if ( patchHeaders( pathToSelf, NULL ) == -1 ) return -1\<close>.
\<close>

datatype progress = Returned int elfrc | Undefined elfrc | ReachedWrite elfrc

definition mainUntilWrite ::
  "platform \<Rightarrow> environment \<Rightarrow> fd_in \<Rightarrow> (string \<Rightarrow> fd_in option) \<Rightarrow> string option
     \<Rightarrow> string \<Rightarrow> own_header \<Rightarrow> elfrc \<Rightarrow> progress option" where
  "mainUntilWrite pf env stdin open_file fn pathToSelf own g =
     (case loadResources env stdin open_file fn g of
        (Error, g) \<Rightarrow> Some (Returned (- 1) g)
      | (BufferOverrun, g) \<Rightarrow> Some (Undefined g)
      | (Ok, g) \<Rightarrow>
          (case patchHeaders pf pathToSelf own None g of
             None \<Rightarrow> None
           | Some (Error, g) \<Rightarrow> Some (Returned (- 1) g)
           | Some (_, g) \<Rightarrow> Some (ReachedWrite g)))"

subsection \<open>The type of the record being read\<close>

text \<open>
  Between two records the parser is in \<^verbatim>\<open>ReadType\<close>; in the other two states the tab
  that ended the type field has left one of the two words in \<^verbatim>\<open>curType\<close>.
\<close>

definition type_known :: "elfrc \<Rightarrow> bool" where
  "type_known g =
     (state g = ReadType \<or> c_str (curType g) = ''text'' \<or> c_str (curType g) = ''binary'')"

subsection \<open>A manifest in chunks\<close>

text \<open>
  The parser called on each chunk of a manifest in turn, and then on the null buffer.
  A caller stops at the first call that does not return 0, as \<^verbatim>\<open>loadResources\<close>
  does.
\<close>

fun feedChunks :: "environment \<Rightarrow> char list list \<Rightarrow> elfrc \<Rightarrow> ret \<times> elfrc" where
  "feedChunks env [] g = (Ok, g)"
| "feedChunks env (chunk # chunks) g =
     (case parseResourceFileData env (Some chunk) g of
        (Ok, g') \<Rightarrow> feedChunks env chunks g'
      | failed \<Rightarrow> failed)"

definition feedManifest :: "environment \<Rightarrow> char list list \<Rightarrow> elfrc \<Rightarrow> ret \<times> elfrc" where
  "feedManifest env chunks g =
     (case feedChunks env chunks g of
        (Ok, g') \<Rightarrow> parseResourceFileData env None g'
      | failed \<Rightarrow> failed)"

subsection \<open>Examples\<close>

text \<open>
  A block of memory with old contents, a file system with one file of two bytes, the
  header of an x86-64 object, a manifest of one record, two registries, the memory
  with a given registry, and a platform with short paths.
\<close>

definition stale :: Resource where
  "stale = \<lparr>type = BINARY, symbol = [], symbolSize = 0, filename = [], size_r = 0,
            ignore = True, payloadOffset = 0, strtabOffset = 0\<rparr>"

definition example_env :: environment where
  "example_env = \<lparr>stat_size = (\<lambda>p. if p = ''greeting.txt'' then Some 2 else None),
                   malloc_Resource = (\<lambda>n. stale)\<rparr>"

definition amd64_header :: Ehdr where
  "amd64_header = \<lparr>e_machine = 62, ei_osabi = 0, ei_abiversion = 0, e_flags = 0\<rparr>"

definition binary_resource :: "string \<Rightarrow> string \<Rightarrow> 32 word \<Rightarrow> Resource" where
  "binary_resource name fn n =
     \<lparr>type = BINARY, symbol = name, symbolSize = of_nat (length name) + 1, filename = fn,
      size_r = n, ignore = False, payloadOffset = 0, strtabOffset = 0\<rparr>"

definition greeting_manifest :: string where
  "greeting_manifest =
     ''text'' @ [CHR 0x09] @ ''GREETING'' @ [CHR 0x09] @ ''greeting.txt'' @ [CHR 0x0A]"

definition two_resources :: "Resource list" where
  "two_resources = [binary_resource ''A'' ''a.bin'' 3, binary_resource ''B'' ''b.bin'' 4]"

definition block_resources :: "Resource list" where
  "block_resources = [binary_resource ''A'' ''a.bin'' 128, binary_resource ''B'' ''b.bin'' 5]"

definition with_resources :: "Resource list \<Rightarrow> elfrc" where
  "with_resources rs = (initial linux_amd64)\<lparr>resources := rs\<rparr>"

definition small_platform :: platform where
  "small_platform = linux_amd64\<lparr>PATH_MAX := 16\<rparr>"

text \<open>
  Two file systems at the time the payload is written: in one \<^verbatim>\<open>a.bin\<close> is gone and
  \<^verbatim>\<open>b.bin\<close> holds four bytes, in the other every file opens and its first \<^verbatim>\<open>read\<close>
  fails. The object file is empty and takes 4096 bytes.
\<close>

definition vanished_a :: "string \<Rightarrow> fd_in option" where
  "vanished_a p = (if p = ''b.bin'' then Some \<lparr>reads = [ReadBytes ''bbbb''], close_ok = True\<rparr>
                   else None)"

definition unreadable :: "string \<Rightarrow> fd_in option" where
  "unreadable p = Some \<lparr>reads = [ReadFailed], close_ok = True\<rparr>"

definition empty_object :: fd_out where
  "empty_object = \<lparr>written = [], room = 4096\<rparr>"

declare alignLoop.simps [code]
section \<open>The parser\<close>

subsection \<open>The local variable \<^verbatim>\<open>type\<close>\<close>

lemma parseLoop_append:
  "parseLoop env (xs @ ys) ty g =
     (case parseLoop env xs ty g of
        (Ok, ty', g') \<Rightarrow> parseLoop env ys ty' g'
      | failed \<Rightarrow> failed)"
  by (induction xs arbitrary: ty g) (auto split: prod.splits ret.splits)

lemma c_str_strncpy_binary: "6 \<le> n \<Longrightarrow> c_str (strncpy ''binary'' n) = ''binary''"
  by (simp add: c_str_def strncpy_def takeWhile_append1 takeWhile_replicate)

lemma length_strncpy: "length (strncpy src n) = n"
  by (simp add: strncpy_def)

text \<open>
  A step that returns 0 keeps the size of \<^verbatim>\<open>curType\<close>, and after it the type is
  known again if it was known before.
\<close>

lemma parseChar_type_known:
  assumes "parseChar env c ty g = (Ok, ty1, g1)" "6 \<le> length (curType g)"
  shows "length (curType g1) = length (curType g) \<and> (type_known g \<longrightarrow> type_known g1)"
  using assms
  by (auto simp: parseChar_def finishRecord_def registerResource_def store_def Let_def
        type_known_def c_str_strncpy_binary length_strncpy
      split: ParseState.splits if_splits option.splits prod.splits ret.splits)

text \<open>
  A step changes \<^verbatim>\<open>type\<close> only where it completes a record, and then the parser is in
  \<^verbatim>\<open>ReadType\<close>.
\<close>

lemma parseChar_type_kept:
  assumes "parseChar env c ty g = (Ok, ty1, g1)"
  shows "ty1 = ty \<or> state g1 = ReadType"
  using assms
  by (auto simp: parseChar_def finishRecord_def registerResource_def store_def Let_def
      split: ParseState.splits if_splits option.splits prod.splits ret.splits)

text \<open>Where the type is known, the value of \<^verbatim>\<open>type\<close> before a step does not matter.\<close>

lemma finishRecord_any_type:
  assumes "c_str (curType g) = ''text'' \<or> c_str (curType g) = ''binary''"
  shows "fst (finishRecord env ty g) = fst (finishRecord env ty' g) \<and>
         snd (snd (finishRecord env ty g)) = snd (snd (finishRecord env ty' g)) \<and>
         (fst (finishRecord env ty g) = Ok \<longrightarrow>
            fst (snd (finishRecord env ty g)) = fst (snd (finishRecord env ty' g)))"
  using assms by (auto simp: finishRecord_def Let_def split: option.splits)

lemma parseChar_any_type_eq:
  assumes "type_known g"
  shows "fst (parseChar env c ty g) = fst (parseChar env c ty' g) \<and>
         snd (snd (parseChar env c ty g)) = snd (snd (parseChar env c ty' g))"
proof (cases "state g = ReadFilename \<and> c = CHR 0x0A")
  case True
  then have known: "c_str (curType g) = ''text'' \<or> c_str (curType g) = ''binary''"
    using assms by (auto simp: type_known_def)
  obtain r t g1 where f: "finishRecord env ty g = (r, t, g1)"
    by (cases "finishRecord env ty g") auto
  obtain r' t' g1' where f': "finishRecord env ty' g = (r', t', g1')"
    by (cases "finishRecord env ty' g") auto
  have "r' = r" "g1' = g1" "r = Ok \<longrightarrow> t' = t"
    using finishRecord_any_type[OF known, of env ty ty'] f f' by auto
  then show ?thesis using True f f' by (cases r) (simp_all add: parseChar_def)
next
  case False
  then show ?thesis
    by (cases "state g") (auto simp: parseChar_def Let_def split: option.splits)
qed

lemma parseChar_any_type:
  assumes "type_known g" "parseChar env c ty g = (r, ty1, g1)"
  shows "\<exists>ty1'. parseChar env c ty' g = (r, ty1', g1)"
  using parseChar_any_type_eq[OF assms(1), of env c ty ty'] assms(2)
  by (cases "parseChar env c ty' g") auto

lemma parseLoop_any_type:
  assumes "type_known g" "6 \<le> length (curType g)"
  shows "(case parseLoop env cs ty g of (r, ty1, g1) \<Rightarrow> (r, g1)) =
         (case parseLoop env cs ty' g of (r, ty1, g1) \<Rightarrow> (r, g1))"
  using assms
proof (induction cs arbitrary: ty ty' g)
  case Nil
  show ?case by simp
next
  case (Cons c cs)
  obtain r ty1 g1 where step: "parseChar env c ty g = (r, ty1, g1)"
    by (cases "parseChar env c ty g") auto
  obtain ty1' where step': "parseChar env c ty' g = (r, ty1', g1)"
    using parseChar_any_type[OF Cons.prems(1) step] by blast
  show ?case
  proof (cases "r = Ok")
    case True
    have "type_known g1" "6 \<le> length (curType g1)"
      using parseChar_type_known[of env c ty g ty1 g1] step True Cons.prems by auto
    then show ?thesis using Cons.IH[of g1 ty1 ty1'] step step' True by simp
  next
    case False
    then show ?thesis using step step' by (cases r) simp_all
  qed
qed

lemma parseLoop_type_known:
  assumes "parseLoop env cs ty g = (Ok, ty1, g1)" "6 \<le> length (curType g)"
    "ty = TEXT \<or> type_known g"
  shows "length (curType g1) = length (curType g) \<and> (ty1 = TEXT \<or> type_known g1)"
  using assms
proof (induction cs arbitrary: ty g)
  case Nil
  then show ?case by auto
next
  case (Cons c cs)
  obtain r ty2 g2 where step: "parseChar env c ty g = (r, ty2, g2)"
    by (cases "parseChar env c ty g") auto
  have r: "r = Ok" using Cons.prems(1) step by (cases r) auto
  have rest: "parseLoop env cs ty2 g2 = (Ok, ty1, g1)"
    using Cons.prems(1) step r by simp
  have len: "length (curType g2) = length (curType g)"
    and known: "type_known g \<longrightarrow> type_known g2"
    using parseChar_type_known[of env c ty g ty2 g2] step r Cons.prems(2) by auto
  have "ty2 = ty \<or> state g2 = ReadType"
    using parseChar_type_kept[of env c ty g ty2 g2] step r by simp
  then have "ty2 = TEXT \<or> type_known g2"
    using Cons.prems(3) known by (auto simp: type_known_def)
  then show ?case using Cons.IH[OF rest] len Cons.prems(2) by simp
qed

subsection \<open>Chunks\<close>

text \<open>
  Up to the first store past the end of a buffer, where the model stops, the calls of
  the parser on the chunks of a manifest do what one call on the whole manifest does.
  The local \<^verbatim>\<open>type\<close> is lost at the end of every call; it is not missed as long as
  the tab that ended the type field has left one of the two words in \<^verbatim>\<open>curType\<close> and
  nothing has overwritten it. So a manifest that is parsed without such a store gives
  the same result in every chunking.
\<close>

lemma parseBytes_append:
  assumes "6 \<le> length (curType g)"
  shows "parseBytes env (xs @ ys) g =
     (case parseBytes env xs g of (Ok, g') \<Rightarrow> parseBytes env ys g' | failed \<Rightarrow> failed)"
proof -
  obtain r ty1 g1 where first: "parseLoop env xs TEXT g = (r, ty1, g1)"
    by (cases "parseLoop env xs TEXT g") auto
  show ?thesis
  proof (cases "r = Ok")
    case True
    have len: "6 \<le> length (curType g1)" and known: "ty1 = TEXT \<or> type_known g1"
      using parseLoop_type_known[of env xs TEXT g ty1 g1] first True assms by auto
    have "(case parseLoop env ys ty1 g1 of (r, ty2, g2) \<Rightarrow> (r, g2)) =
          (case parseLoop env ys TEXT g1 of (r, ty2, g2) \<Rightarrow> (r, g2))"
      using known parseLoop_any_type[OF _ len, of env ys ty1 TEXT] by auto
    then show ?thesis using first True by (simp add: parseBytes_def parseLoop_append)
  next
    case False
    then show ?thesis using first by (cases r) (simp_all add: parseBytes_def parseLoop_append)
  qed
qed

lemma parseBytes_curType_size:
  assumes "parseBytes env cs g = (Ok, g1)" "6 \<le> length (curType g)"
  shows "length (curType g1) = length (curType g)"
proof -
  obtain ty1 where "parseLoop env cs TEXT g = (Ok, ty1, g1)"
    using assms(1) by (auto simp: parseBytes_def split: prod.splits)
  then show ?thesis using parseLoop_type_known[of env cs TEXT g ty1 g1] assms(2) by simp
qed

lemma feedChunks_concat:
  assumes "6 \<le> length (curType g)"
  shows "feedChunks env chunks g = parseBytes env (concat chunks) g"
  using assms
proof (induction chunks arbitrary: g)
  case Nil
  show ?case by (simp add: parseBytes_def)
next
  case (Cons chunk chunks)
  obtain r g1 where first: "parseBytes env chunk g = (r, g1)"
    by (cases "parseBytes env chunk g") auto
  show ?case
  proof (cases "r = Ok")
    case True
    have "6 \<le> length (curType g1)"
      using parseBytes_curType_size[of env chunk g g1] first True Cons.prems by simp
    then show ?thesis
      using Cons.IH[of g1] first True Cons.prems
      by (simp add: parseResourceFileData_def parseBytes_append)
  next
    case False
    then show ?thesis using first Cons.prems
      by (cases r) (simp_all add: parseResourceFileData_def parseBytes_append)
  qed
qed

lemma chunking_without_overrun:
  assumes "concat chunks1 = concat chunks2"
    and "fst (feedManifest env chunks1 (initial pf)) \<noteq> BufferOverrun"
  shows "feedManifest env chunks2 (initial pf) = feedManifest env chunks1 (initial pf)"
proof -
  have "6 \<le> length (curType (initial pf))" by (simp add: initial_def)
  then show ?thesis using assms(1) by (simp add: feedManifest_def feedChunks_concat)
qed

subsection \<open>The fields\<close>

lemma parseChar_type_byte:
  assumes "state g = ReadType" "c \<noteq> CHR 0x09" "c \<noteq> CHR 0x0A"
    "curTypeLen g < length (curType g)"
  shows "parseChar env c ty g =
           (Ok, ty, g\<lparr>curType := (curType g)[curTypeLen g := c], curTypeLen := curTypeLen g + 1\<rparr>)"
  using assms by (simp add: parseChar_def)

lemma parseLoop_type_field:
  assumes "state g = ReadType" "CHR 0x09 \<notin> set xs" "CHR 0x0A \<notin> set xs"
    "curTypeLen g + length xs \<le> length (curType g)"
  shows "\<exists>g'. parseLoop env xs ty g = (Ok, ty, g') \<and> state g' = ReadType \<and>
           curTypeLen g' = curTypeLen g + length xs \<and>
           length (curType g') = length (curType g) \<and>
           curSymbol g' = curSymbol g \<and>
           resources g' = resources g \<and> err g' = err g"
  using assms
proof (induction xs arbitrary: g)
  case Nil
  then show ?case by simp
next
  case (Cons c xs)
  let ?g1 = "g\<lparr>curType := (curType g)[curTypeLen g := c], curTypeLen := curTypeLen g + 1\<rparr>"
  have step: "parseChar env c ty g = (Ok, ty, ?g1)"
    using Cons.prems by (intro parseChar_type_byte) auto
  have "\<exists>g'. parseLoop env xs ty ?g1 = (Ok, ty, g') \<and> state g' = ReadType \<and>
           curTypeLen g' = curTypeLen ?g1 + length xs \<and>
           length (curType g') = length (curType ?g1) \<and>
           curSymbol g' = curSymbol ?g1 \<and>
           resources g' = resources ?g1 \<and> err g' = err ?g1"
    using Cons.prems by (intro Cons.IH) auto
  then show ?case using step by auto
qed

lemma parseBytes_type_field:
  assumes "state g = ReadType" "CHR 0x09 \<notin> set xs" "CHR 0x0A \<notin> set xs"
    "curTypeLen g + length xs \<le> length (curType g)"
  shows "\<exists>g'. parseBytes env xs g = (Ok, g') \<and> state g' = ReadType \<and>
           curTypeLen g' = curTypeLen g + length xs \<and>
           length (curType g') = length (curType g) \<and>
           curSymbol g' = curSymbol g \<and>
           resources g' = resources g \<and> err g' = err g"
  using parseLoop_type_field[OF assms, of env TEXT] by (auto simp: parseBytes_def)






text \<open>
  C10. The claim fails on the code. A type field of 32 bytes fills \<^verbatim>\<open>curType\<close>: the
  test \<^verbatim>\<open>curTypeLen < sizeof( curType )\<close> lets the 32nd byte in, and \<^verbatim>\<open>curTypeLen\<close>
  is then 32, the size of the array. The tab that ends the field stores the NUL at
  \<^verbatim>\<open>curType[ 32 ]\<close>, one past the end. This holds in every environment and on every
  platform.
\<close>

theorem terminator_past_the_end:
  "curTypeLen (snd (parseBytes env (replicate 32 (CHR ''a'')) (initial pf))) = 32 \<and>
   length (curType (snd (parseBytes env (replicate 32 (CHR ''a'')) (initial pf)))) = 32 \<and>
   fst (parseBytes env (replicate 32 (CHR ''a'') @ [CHR 0x09]) (initial pf)) = BufferOverrun"
proof -
  obtain g' where g': "parseBytes env (replicate 32 (CHR ''a'')) (initial pf) = (Ok, g')"
    "state g' = ReadType"
    "curTypeLen g' = curTypeLen (initial pf) + length (replicate 32 (CHR ''a''))"
    "length (curType g') = length (curType (initial pf))"
    using parseBytes_type_field[of "initial pf" "replicate 32 (CHR ''a'')" env]
    by (auto simp: initial_def)
  have len: "curTypeLen g' = 32" "length (curType g') = 32"
    using g'(3,4) by (simp_all add: initial_def)
  have "parseChar env (CHR 0x09) TEXT g' = (BufferOverrun, TEXT, g')"
    using g'(2) len by (simp add: parseChar_def store_def)
  then have "parseBytes env [CHR 0x09] g' = (BufferOverrun, g')"
    by (simp add: parseBytes_def)
  moreover have "6 \<le> length (curType (initial pf))" by (simp add: initial_def)
  ultimately show ?thesis using g'(1) len by (simp add: parseBytes_append)
qed

subsection \<open>Line numbers\<close>

text \<open>
  C9. The claim fails on the code. \<^verbatim>\<open>lineno\<close> starts at 0 and counts the records
  that are complete, so the diagnostics number the lines from 0. A manifest whose first
  line is empty is reported as an error in line 0, in every environment and on every
  platform; an empty second line after one good record is reported as line 1.
\<close>

theorem line_numbers_start_at_zero:
  "parseBytes env [CHR 0x0A] (initial pf) =
     (Error, (initial pf)\<lparr>err := [TypeGotNewline 0]\<rparr>) \<and>
   err (snd (parseBytes example_env (greeting_manifest @ [CHR 0x0A]) (initial small_platform))) =
     [TypeGotNewline 1]"
proof
  show "parseBytes env [CHR 0x0A] (initial pf) =
      (Error, (initial pf)\<lparr>err := [TypeGotNewline 0]\<rparr>)"
    by (simp add: parseBytes_def parseChar_def initial_def)
  show "err (snd (parseBytes example_env (greeting_manifest @ [CHR 0x0A])
                    (initial small_platform))) = [TypeGotNewline 1]"
    by code_simp
qed

section \<open>The layout\<close>

subsection \<open>\<^verbatim>\<open>patchHeaders\<close> returns\<close>

lemma alignLoop_returns:
  "0 < a \<Longrightarrow> \<exists>r. alignLoop bits sz a = Some r"
proof (induction "nat (bits - a)" arbitrary: a rule: less_induct)
  case less
  show ?case
  proof (cases "a < bits \<and> uint sz > a")
    case True
    then have "nat (bits - a * 2) < nat (bits - a)" using less.prems by simp
    from less.hyps[OF this] less.prems obtain r where "alignLoop bits sz (a * 2) = Some r"
      by auto
    then show ?thesis using True by (subst alignLoop.simps) simp
  next
    case False
    then show ?thesis by (subst alignLoop.simps) auto
  qed
qed

lemma maxalignLoop_returns: "\<exists>r. maxalignLoop pf rs m = Some r"
proof (induction rs arbitrary: m)
  case Nil
  show ?case by simp
next
  case (Cons it rest)
  obtain a where "alignLoop (pointer_bits pf) (size_r it) 1 = Some a"
    using alignLoop_returns[of 1] by auto
  then show ?case using Cons by simp
qed

subsection \<open>The loop of the sizes\<close>

lemma padding_cong:
  "sh_addralign (rodataHeader g1) = sh_addralign (rodataHeader g2) \<Longrightarrow> padding g1 sz = padding g2 sz"
  by (simp add: padding_def)

lemma sizeLoop_Cons:
  "sizeLoop pf g (it # rest) (p, sy, st) =
     (let r = sizeLoop pf g rest
                (if rest \<noteq> [] then p + size_r it + padding g (size_r it) else p + size_r it,
                 sy + of_nat (sizeof_Sym pf), st + symbolSize it)
      in (it\<lparr>payloadOffset := p, strtabOffset := st\<rparr> # fst r, snd r))"
  by (simp add: Let_def split: prod.splits)

lemma sizeLoop_cong:
  "sh_addralign (rodataHeader g1) = sh_addralign (rodataHeader g2) \<Longrightarrow>
   sizeLoop pf g1 rs sizes = sizeLoop pf g2 rs sizes"
proof (induction rs arbitrary: sizes)
  case Nil
  show ?case by simp
next
  case (Cons it rest)
  obtain p sy st where s: "sizes = (p, sy, st)" by (cases sizes) auto
  show ?case unfolding s sizeLoop_Cons
    using Cons.IH[OF Cons.prems] padding_cong[OF Cons.prems] by simp
qed


lemma sizeLoop_payloadOffset:
  "i < length rs \<Longrightarrow>
   payloadOffset (fst (sizeLoop pf g rs (p, sy, st)) ! i) =
     p + sum_list (map (\<lambda>r. size_r r + padding g (size_r r)) (take i rs))"
proof (induction rs arbitrary: i p sy st)
  case Nil
  then show ?case by simp
next
  case (Cons it rest)
  show ?case
  proof (cases i)
    case 0
    then show ?thesis unfolding sizeLoop_Cons by (simp add: Let_def)
  next
    case (Suc j)
    then have j: "j < length rest" and ne: "rest \<noteq> []" using Cons.prems by auto
    show ?thesis unfolding sizeLoop_Cons using Cons.IH[OF j] ne Suc
      by (simp add: Let_def add.assoc)
  qed
qed




lemma patchHeaders_layout:
  assumes "archHeader pathToSelf own archhdr = Inr h"
  shows "\<exists>g' maxalign p sy st.
           patchHeaders pf pathToSelf own archhdr g = Some (Ok, g') \<and>
           maxalignLoop pf (resources g) 1 = Some maxalign \<and>
           sh_addralign (rodataHeader g') = of_int maxalign \<and>
           sizeLoop pf g' (resources g) (0, of_nat (length symtabData * sizeof_Sym pf), 1) =
             (resources g', p, sy, st) \<and>
           sh_size (rodataHeader g') = scast p \<and>
           sh_size (symtabHeader g') = scast sy \<and>
           sh_size (strtabHeader g') = scast st \<and>
           err g' = err g"
proof -
  obtain maxalign where m: "maxalignLoop pf (resources g) 1 = Some maxalign"
    using maxalignLoop_returns by blast
  define g1 where "g1 = g\<lparr>hdr := \<lparr>e_machine = e_machine h, ei_osabi = ei_osabi h,
                              ei_abiversion = ei_abiversion h, e_flags = e_flags h\<rparr>,
                         rodataHeader := (rodataHeader g)\<lparr>sh_addralign := of_int maxalign\<rparr>\<rparr>"
  obtain rs p sy st where
    sl: "sizeLoop pf g1 (resources g) (0, of_nat (length symtabData * sizeof_Sym pf), 1) = (rs, p, sy, st)"
    by (metis prod_cases4)
  define g' where "g' = g1\<lparr>resources := rs,
      rodataHeader := (rodataHeader g1)\<lparr>sh_size := scast p,
                                        sh_offset := sh_offset (rodataHeader g1) + scast (sy + st)\<rparr>,
      symtabHeader := (symtabHeader g1)\<lparr>sh_size := scast sy\<rparr>,
      strtabHeader := (strtabHeader g1)\<lparr>sh_offset := sh_offset (strtabHeader g1) + scast sy,
                                        sh_size := scast st\<rparr>\<rparr>"
  have run: "patchHeaders pf pathToSelf own archhdr g = Some (Ok, g')"
    using assms m sl by (simp add: patchHeaders_def g1_def g'_def)
  have al: "sh_addralign (rodataHeader g') = sh_addralign (rodataHeader g1)"
    by (simp add: g'_def)
  have "sizeLoop pf g' (resources g) (0, of_nat (length symtabData * sizeof_Sym pf), 1) =
      (resources g', p, sy, st)"
    using sl sizeLoop_cong[OF al] by (simp add: g'_def)
  moreover have "sh_addralign (rodataHeader g') = of_int maxalign" by (simp add: g'_def g1_def)
  moreover have "sh_size (rodataHeader g') = scast p" "sh_size (symtabHeader g') = scast sy"
    "sh_size (strtabHeader g') = scast st" "err g' = err g"
    by (simp_all add: g'_def g1_def)
  ultimately show ?thesis using run m by blast
qed

subsection \<open>Conversions\<close>



lemma take_bit_32_64:
  fixes a b :: int
  shows "take_bit 32 (take_bit 64 a + take_bit 64 b) = take_bit 32 (a + b)"
proof -
  have "take_bit 32 (take_bit 64 a + take_bit 64 b) =
        take_bit 32 (take_bit 32 (take_bit 64 a) + take_bit 32 (take_bit 64 b))"
    by (simp only: take_bit_add)
  also have "\<dots> = take_bit 32 (take_bit 32 a + take_bit 32 b)"
    by (simp add: take_bit_take_bit)
  also have "\<dots> = take_bit 32 (a + b)"
    by (simp only: take_bit_add)
  finally show ?thesis .
qed

lemma ucast_down_plus:
  fixes a b :: "64 word"
  shows "(ucast (a + b) :: 32 word) = ucast a + ucast b"
  by transfer (simp add: take_bit_32_64)

lemma ucast_ucast_32:
  fixes x :: "32 word"
  shows "(ucast (ucast x :: 64 word) :: 32 word) = x"
  by (rule bit_word_eqI) (auto simp: bit_simps)

lemma ucast_eq_iff:
  fixes x y :: "32 word"
  shows "(ucast x :: 64 word) = ucast y \<longleftrightarrow> x = y"
  by (metis ucast_ucast_32)

lemma ucast_power_32:
  assumes "k < 32"
  shows "(ucast (2 ^ k :: 32 word) :: 64 word) = 2 ^ k"
  using assms by (intro bit_word_eqI) (auto simp: bit_simps)

lemma ucast_mask_not:
  fixes sz :: "32 word"
  assumes "k < 32"
  shows "(ucast (((2 ^ k - 1) :: 64 word) AND ucast (NOT sz)) :: 32 word) = (2 ^ k - 1) AND NOT sz"
  unfolding mask_eq_exp_minus_1[symmetric]
  by (rule bit_word_eqI) (auto simp: bit_simps)

subsection \<open>Sums of words\<close>







subsection \<open>The payload section\<close>





subsection \<open>The string table\<close>

lemma registerResource_symbolSize:
  assumes "length (c_str name) < 2 ^ 32 - 1"
  shows "symbolSize (last (resources (registerResource fresh ty name fn filesize g))) =
           of_nat (length (c_str name) + 1) \<and>
         symbolSize (last (resources (registerResource fresh ty name fn filesize g))) \<noteq> 0"
proof -
  have eq: "symbolSize (last (resources (registerResource fresh ty name fn filesize g))) =
      of_nat (length (c_str name) + 1)"
    by (simp add: registerResource_def Let_def)
  have "unat (of_nat (length (c_str name) + 1) :: 32 word) = length (c_str name) + 1"
    unfolding unat_of_nat using assms by simp
  then have "(of_nat (length (c_str name) + 1) :: 32 word) \<noteq> 0"
    by (metis Suc_eq_plus1 nat.distinct(1) unat_0)
  then show ?thesis using eq by simp
qed





subsection \<open>The symbol table\<close>




text \<open>
  The table as it is compiled. The initialisers of \<^verbatim>\<open>symtabData\<close> list their values in
  the order name, value, size, info, visibility, section index, which is not the order
  of the members of \<^verbatim>\<open>Elf64_Sym\<close>: in the entry that the source comments as the symbol
  of the original file, the type and binding (\<^verbatim>\<open>STT_FILE\<close>, 4) initialise \<^verbatim>\<open>st_shndx\<close>
  and the section index \<^verbatim>\<open>SHN_ABS\<close> initialises \<^verbatim>\<open>st_size\<close>, and \<^verbatim>\<open>st_info\<close> is 0 in
  every entry.
\<close>

lemma symtabData_as_compiled:
  "symtabData ! 1 = \<lparr>st_name = 0, st_info = 0, st_other = 0, st_shndx = 4,
                     st_value = 0, st_size = 0xfff1\<rparr> \<and>
   map st_info symtabData = [0, 0, 0, 0, 0, 0, 0] \<and>
   map st_shndx symtabData = [0, 4, 3, 3, 3, 3, 3] \<and>
   map st_size symtabData = [0, 0xfff1, 1, 2, 3, 4, 5]"
  by (simp add: symtabData_def Sym_initializer_def ELF_ST_INFO_def STB_LOCAL_def
      STT_NOTYPE_def STT_FILE_def STT_SECTION_def STV_DEFAULT_def STN_UNDEF_def SHN_ABS_def)

subsection \<open>The padding\<close>

text \<open>
  C2. The claim fails on the code. For resources of 128 and 5 bytes the alignment of
  \<^verbatim>\<open>.rodata\<close> is 64 and the padding after the first resource is 64 bytes, a whole
  block: \<^verbatim>\<open>padding\<close> returns 0 only for a size equal to the alignment, not for its
  other multiples.
\<close>

theorem padding_of_a_whole_block:
  "map_option
     (\<lambda>(r, g'). (r, sh_addralign (rodataHeader g'), padding g' 128,
                  map payloadOffset (resources g'), sh_size (rodataHeader g')))
     (patchHeaders linux_amd64 ''/usr/bin/elfrc'' OpenFails (Some amd64_header)
        (with_resources block_resources)) =
   Some (Ok, 64, 64, [0, 192], 197)"
  by code_simp

subsection \<open>What the padding does\<close>

text \<open>
  The alignment of \<^verbatim>\<open>.rodata\<close> is a power of two, \<open>2 ^ k\<close>, that fits an
  \<^verbatim>\<open>unsigned int\<close>. The padding after a resource of size \<open>sz\<close> is then \<open>2 ^ k\<close> less the
  \<open>k\<close> low bits of \<open>sz\<close>, or 0 when \<open>sz\<close> is \<open>2 ^ k\<close> itself: it is at most \<open>2 ^ k\<close>,
  it makes the size a multiple of \<open>2 ^ k\<close>, and so every \<^verbatim>\<open>payloadOffset\<close> is a multiple
  of \<open>2 ^ k\<close>.
\<close>

lemma padding_power_of_two:
  assumes "sh_addralign (rodataHeader g) = 2 ^ k" "k < 32"
  shows "padding g sz = (if sz = 2 ^ k then 0 else 2 ^ k - take_bit k sz)"
proof -
  have "(2 ^ k - 1) AND NOT sz = take_bit k (NOT sz)"
    by (simp add: take_bit_eq_mask mask_eq_exp_minus_1 and.commute)
  also have "\<dots> = mask k - take_bit k sz"
    by (rule take_bit_not_eq_mask_diff)
  finally have low: "((2 ^ k - 1) AND NOT sz) + 1 = 2 ^ k - take_bit k sz"
    by (simp add: mask_eq_exp_minus_1)
  have "(ucast (((2 ^ k - 1 :: 64 word) AND ucast (NOT sz)) + 1) :: 32 word) =
        ((2 ^ k - 1) AND NOT sz) + 1"
    unfolding ucast_down_plus ucast_mask_not[OF assms(2)] by simp
  then have cut: "(ucast (((2 ^ k - 1 :: 64 word) AND ucast (NOT sz)) + 1) :: 32 word) =
        2 ^ k - take_bit k sz"
    using low by simp
  have "(ucast sz = (2 ^ k :: 64 word)) = (sz = 2 ^ k)"
    using ucast_eq_iff[of sz "2 ^ k"] ucast_power_32[OF assms(2)] by simp
  then show ?thesis using assms(1) cut by (simp add: padding_def)
qed

lemma padding_rounds_up:
  assumes "sh_addralign (rodataHeader g) = 2 ^ k" "k < 32"
  shows "take_bit k (sz + padding g sz) = 0"
proof (cases "sz = 2 ^ k")
  case True
  then show ?thesis using assms by (simp add: padding_power_of_two take_bit_eq_0_iff)
next
  case False
  define d t where "d = drop_bit k sz" and "t = take_bit k sz"
  have "2 ^ k * d + t = sz"
    unfolding d_def t_def using bits_ident[of k sz] by (simp add: push_bit_eq_mult mult.commute)
  then have "sz + (2 ^ k - t) = 2 ^ k * d + t + (2 ^ k - t)"
    by simp
  also have "\<dots> = 2 ^ k * (d + 1)"
    by (simp add: algebra_simps)
  finally have "sz + (2 ^ k - t) = 2 ^ k * (d + 1)" .
  then have "2 ^ k dvd sz + (2 ^ k - t)"
    by simp
  then have "2 ^ k dvd sz + (2 ^ k - take_bit k sz)"
    by (simp add: t_def)
  then show ?thesis using False assms by (simp add: padding_power_of_two take_bit_eq_0_iff)
qed

lemma padding_at_most_alignment:
  assumes "sh_addralign (rodataHeader g) = 2 ^ k" "k < 32"
  shows "unat (padding g sz) \<le> 2 ^ k"
proof (cases "sz = 2 ^ k")
  case True
  then show ?thesis using assms by (simp add: padding_power_of_two)
next
  case False
  have "unat (2 ^ k - take_bit k sz :: 32 word) \<le> 2 ^ k"
    using assms(2)
    by (metis (mono_tags, lifting) le_unat_uoi of_nat_numeral of_nat_power
        order.asym take_bit_nat_less_exp unsigned_take_bit_eq
        verit_comp_simplify1(3) word_less_nat_alt word_sub_less_iff)
  then show ?thesis using False assms by (simp add: padding_power_of_two)
qed

lemma take_bit_sum_list:
  fixes f :: "'a \<Rightarrow> 32 word"
  assumes "\<forall>x\<in>set xs. take_bit k (f x) = 0"
  shows "take_bit k (sum_list (map f xs)) = 0"
  using assms
proof (induction xs)
  case Nil
  show ?case by simp
next
  case (Cons x xs)
  then have "2 ^ k dvd f x" "2 ^ k dvd sum_list (map f xs)"
    by (simp_all add: take_bit_eq_0_iff)
  then show ?case by (simp add: take_bit_eq_0_iff)
qed

lemma alignLoop_power:
  assumes "j \<le> 31" "bits \<le> 2 ^ 31"
  shows "\<exists>n\<le>31. alignLoop bits sz (2 ^ j) = Some (2 ^ n)"
  using assms(1)
proof (induction "nat (bits - 2 ^ j)" arbitrary: j rule: less_induct)
  case less
  show ?case
  proof (cases "2 ^ j < bits \<and> uint sz > 2 ^ j")
    case True
    then have "(2::int) ^ j < 2 ^ 31" using assms(2) by simp
    then have "j < 31" by (rule power_less_imp_less_exp[rotated]) simp
    then have j: "Suc j \<le> 31" by simp
    have "nat (bits - 2 ^ Suc j) < nat (bits - 2 ^ j)" using True by simp
    from less.hyps[OF this j] obtain n where
      "n \<le> 31" "alignLoop bits sz (2 ^ Suc j) = Some (2 ^ n)"
      by auto
    then have "n \<le> 31 \<and> alignLoop bits sz (2 ^ j) = Some (2 ^ n)"
      using True by (subst alignLoop.simps) (simp add: mult.commute)
    then show ?thesis by blast
  next
    case False
    then have "alignLoop bits sz (2 ^ j) = Some (2 ^ j)" by (subst alignLoop.simps) auto
    then show ?thesis using less.prems by blast
  qed
qed

lemma maxalignLoop_power:
  assumes "j \<le> 31" "pointer_bits pf \<le> 2 ^ 31"
  shows "\<exists>n\<le>31. maxalignLoop pf rs (2 ^ j) = Some (2 ^ n)"
  using assms(1)
proof (induction rs arbitrary: j)
  case Nil
  then show ?case by auto
next
  case (Cons it rest)
  obtain n where n: "n \<le> 31" and a: "alignLoop (pointer_bits pf) (size_r it) 1 = Some (2 ^ n)"
    using alignLoop_power[of 0 "pointer_bits pf" "size_r it"] assms(2) by auto
  show ?case
  proof (cases "(2::int) ^ n > 2 ^ j")
    case True
    then show ?thesis using a Cons.IH[OF n] by simp
  next
    case False
    then show ?thesis using a Cons.IH[OF Cons.prems] by simp
  qed
qed

lemma payload_offsets_are_aligned:
  assumes "archHeader pathToSelf own archhdr = Inr h" "pointer_bits pf \<le> 2 ^ 31"
  shows "\<exists>g' k. patchHeaders pf pathToSelf own archhdr g = Some (Ok, g') \<and>
           sh_addralign (rodataHeader g') = 2 ^ k \<and> k < 32 \<and>
           (\<forall>it\<in>set (resources g). take_bit k (size_r it + padding g' (size_r it)) = 0) \<and>
           (\<forall>i<length (resources g). take_bit k (payloadOffset (resources g' ! i)) = 0)"
proof -
  obtain g' maxalign p sy st where
    run: "patchHeaders pf pathToSelf own archhdr g = Some (Ok, g')" and
    m: "maxalignLoop pf (resources g) 1 = Some maxalign" and
    al: "sh_addralign (rodataHeader g') = of_int maxalign" and
    sl: "sizeLoop pf g' (resources g) (0, of_nat (length symtabData * sizeof_Sym pf), 1) =
           (resources g', p, sy, st)"
    using patchHeaders_layout[OF assms(1), of pf g] by blast
  have rs: "resources g' =
      fst (sizeLoop pf g' (resources g) (0, of_nat (length symtabData * sizeof_Sym pf), 1))"
    using sl by simp
  obtain k where k31: "k \<le> 31" and "maxalign = 2 ^ k"
    using maxalignLoop_power[of 0 pf "resources g"] assms(2) m by auto
  then have k: "sh_addralign (rodataHeader g') = 2 ^ k" using al by simp
  have k32: "k < 32" using k31 by simp
  have each: "\<forall>it\<in>set (resources g). take_bit k (size_r it + padding g' (size_r it)) = 0"
    using padding_rounds_up[OF k k32] by simp
  have "take_bit k (payloadOffset (resources g' ! i)) = 0" if i: "i < length (resources g)" for i
  proof -
    have "payloadOffset (resources g' ! i) =
        sum_list (map (\<lambda>r. size_r r + padding g' (size_r r)) (take i (resources g)))"
      by (subst rs, subst sizeLoop_payloadOffset[OF i]) simp
    moreover have "\<forall>r\<in>set (take i (resources g)). take_bit k (size_r r + padding g' (size_r r)) = 0"
      using each by (auto dest: in_set_takeD)
    ultimately show ?thesis using take_bit_sum_list by simp
  qed
  then show ?thesis using run k k32 each by blast
qed

section \<open>Loading the manifest\<close>

lemma loadResources_discards_eof_result:
  assumes "openManifest stdin open_file fn = Inr fd"
    and "readLoop env fn (reads fd) g = (Ok, g1)"
    and "state g1 = ReadType \<or> state g1 = ReadSymbol"
  shows "fst (parseResourceFileData env None g1) = Error"
    and "loadResources env stdin open_file fn g =
           (if close_ok fd then Ok else Error,
            g1\<lparr>err := err g1 @ [if state g1 = ReadType then EofExpectedSymbol
                                 else EofExpectedFilename]\<rparr>)"
  using assms
  by (auto simp: loadResources_def parseResourceFileData_def parseEOF_def)

text \<open>
  C1. The claim fails on the code. For the manifest \<^verbatim>\<open>text\<close>, which ends inside the
  type field, the closing call of the parser returns -1, but \<^verbatim>\<open>loadResources\<close> drops
  that value and returns what \<^verbatim>\<open>close\<close> returns, so \<^verbatim>\<open>main\<close> goes on to
  \<^verbatim>\<open>patchHeaders\<close> and to the writing of the object file, with no resource. This
  holds in every environment and on every platform.
\<close>

theorem truncated_manifest_is_not_fatal:
  "fst (parseResourceFileData env None (snd (parseBytes env ''text'' (initial pf)))) = Error \<and>
   fst (loadResources env \<lparr>reads = [ReadBytes ''text''], close_ok = True\<rparr> open_file None
          (initial pf)) = Ok \<and>
   (\<exists>g'. mainUntilWrite pf env \<lparr>reads = [ReadBytes ''text''], close_ok = True\<rparr> open_file None
            pathToSelf (OwnHeader h) (initial pf) = Some (ReachedWrite g') \<and>
          resources g' = [] \<and> err g' = [EofExpectedSymbol])"
proof -
  let ?fd = "\<lparr>reads = [ReadBytes ''text''], close_ok = True\<rparr>"
  obtain g1 where g1: "parseBytes env ''text'' (initial pf) = (Ok, g1)" "state g1 = ReadType"
    "resources g1 = resources (initial pf)" "err g1 = err (initial pf)"
    using parseBytes_type_field[of "initial pf" "''text''" env]
    by (auto simp: initial_def)
  have op: "openManifest ?fd open_file None = Inr ?fd"
    by (simp add: openManifest_def)
  have rd: "readLoop env None (reads ?fd) (initial pf) = (Ok, g1)"
    using g1(1) by (simp add: parseResourceFileData_def)
  have st: "state g1 = ReadType \<or> state g1 = ReadSymbol" using g1(2) by simp
  let ?g2 = "g1\<lparr>err := err g1 @ [EofExpectedSymbol]\<rparr>"
  have eof: "fst (parseResourceFileData env None g1) = Error"
    by (rule loadResources_discards_eof_result(1)[OF op rd st])
  have load: "loadResources env ?fd open_file None (initial pf) = (Ok, ?g2)"
    using loadResources_discards_eof_result(2)[OF op rd st] g1(2) by simp
  have ah: "archHeader pathToSelf (OwnHeader h) None = Inr h"
    by (simp add: archHeader_def)
  obtain g' p sy st where run: "patchHeaders pf pathToSelf (OwnHeader h) None ?g2 = Some (Ok, g')"
    and sl: "sizeLoop pf g' (resources ?g2) (0, of_nat (length symtabData * sizeof_Sym pf), 1) =
       (resources g', p, sy, st)"
    and er: "err g' = err ?g2"
    using patchHeaders_layout[OF ah, of pf ?g2] by blast
  have "resources ?g2 = []" using g1(3) by (simp add: initial_def)
  then have "resources g' = []" using sl by simp
  moreover have "err g' = [EofExpectedSymbol]" using er g1(4) by (simp add: initial_def)
  moreover have "mainUntilWrite pf env ?fd open_file None pathToSelf (OwnHeader h) (initial pf) =
      Some (ReachedWrite g')"
    using load run by (simp add: mainUntilWrite_def)
  ultimately show ?thesis using eof load g1(1) by auto
qed

text \<open>
  A manifest of one complete record that ends with a line break: the resource is
  registered, the closing call still reports an unexpected end, and the result is 0.
\<close>

lemma greeting_round_trip:
  "(case loadResources example_env \<lparr>reads = [ReadBytes greeting_manifest], close_ok = True\<rparr>
           (\<lambda>_. None) None (initial small_platform) of
      (r, g) \<Rightarrow> (r, resources g, state g, lineno g, err g)) =
   (Ok, [stale\<lparr>type := TEXT, symbol := ''GREETING'', symbolSize := 9,
                filename := ''greeting.txt'', size_r := 3\<rparr>], ReadType, 1, [EofExpectedSymbol])"
  by code_simp

text \<open>
  The same for a manifest that ends inside the symbol, and for one whose last record
  has no line break and names a file that does not exist: the closing call prints its
  message and returns -1, and \<^verbatim>\<open>loadResources\<close> returns 0.
\<close>

lemma truncated_in_the_symbol:
  "(case loadResources example_env
           \<lparr>reads = [ReadBytes (''text'' @ [CHR 0x09] @ ''GREETING'')], close_ok = True\<rparr>
           (\<lambda>_. None) None (initial small_platform) of
      (r, g) \<Rightarrow> (r, state g, resources g, err g)) =
   (Ok, ReadSymbol, [], [EofExpectedFilename])"
  by code_simp

lemma missing_file_at_the_end:
  "(case loadResources example_env
           \<lparr>reads = [ReadBytes (''text'' @ [CHR 0x09] @ ''A'' @ [CHR 0x09] @ ''nofile'')],
            close_ok = True\<rparr>
           (\<lambda>_. None) None (initial small_platform) of
      (r, g) \<Rightarrow> (r, state g, resources g, err g)) =
   (Ok, ReadFilename, [], [FailedToAccess 0 ''nofile''])"
  by code_simp

section \<open>Writing the payload\<close>

subsection \<open>What the loop leaves alone\<close>

lemma copyLoop_frame:
  "(snd (snd (copyLoop src rs dst g)))\<lparr>err := e\<rparr> = g\<lparr>err := e\<rparr>"
  by (induction src rs dst g rule: copyLoop.induct)
     (auto split: prod.splits bool.splits)

lemma copyFileToFD_frame:
  "(snd (snd (copyFileToFD open_file src dst g)))\<lparr>err := e\<rparr> = g\<lparr>err := e\<rparr>"
proof (cases "open_file src")
  case None
  then show ?thesis by (simp add: copyFileToFD_def)
next
  case (Some fd)
  obtain r dst' g' where c: "copyLoop src (reads fd) dst g = (r, dst', g')"
    by (metis prod_cases3)
  have "g'\<lparr>err := e\<rparr> = g\<lparr>err := e\<rparr>"
    using copyLoop_frame[where src=src and rs="reads fd" and dst=dst and g=g and e=e] c by simp
  then show ?thesis using Some c by (cases r) (simp_all add: copyFileToFD_def)
qed

lemma padding_err: "padding (g\<lparr>err := e\<rparr>) sz = padding g sz"
  by (simp add: padding_def)

lemma padding_frame:
  assumes "g1\<lparr>err := e\<rparr> = g\<lparr>err := e\<rparr>"
  shows "padding g1 sz = padding g sz"
  using padding_err[where e=e and g=g1 and sz=sz] padding_err[where e=e and g=g and sz=sz] assms by simp

lemma writeFilesLoop_Cons:
  "writeFilesLoop open_file (it # rest) fd g =
     (let c = copyFileToFD open_file (filename it) fd g;
          failed = (fst c = Error);
          fd1 = fst (snd c);
          fd2 = (if failed then fd1
                 else if type it = TEXT then snd (write_fd fd1 [CHR 0x00]) else fd1);
          fd3 = (if \<not> failed \<and> rest \<noteq> []
                 then writeZeros (nat (sint (padding g (size_r it)))) fd2 else fd2);
          r = writeFilesLoop open_file rest fd3 (snd (snd c))
      in (it\<lparr>ignore := failed\<rparr> # fst r, snd r))"
proof -
  obtain r fd1 g1 where c: "copyFileToFD open_file (filename it) fd g = (r, fd1, g1)"
    by (metis prod_cases3)
  have "g1\<lparr>err := []\<rparr> = g\<lparr>err := []\<rparr>"
    using copyFileToFD_frame[where open_file=open_file and src="filename it" and dst=fd and g=g and e="[]"] c by simp
  then have p: "padding g1 (size_r it) = padding g (size_r it)"
    by (rule padding_frame)
  show ?thesis
    by (cases r) (simp_all add: c p Let_def split: prod.splits)
qed

lemma writeFilesLoop_frame:
  "(snd (snd (writeFilesLoop open_file rs fd g)))\<lparr>err := e\<rparr> = g\<lparr>err := e\<rparr>"
proof (induction rs arbitrary: fd g)
  case Nil
  show ?case by simp
next
  case (Cons it rest)
  show ?case unfolding writeFilesLoop_Cons Let_def
    using Cons copyFileToFD_frame[where open_file=open_file and src="filename it" and dst=fd and g=g and e=e] by simp
qed

lemma writeFilesLoop_fields:
  "map (\<lambda>r. r\<lparr>ignore := b\<rparr>) (fst (writeFilesLoop open_file rs fd g)) =
   map (\<lambda>r. r\<lparr>ignore := b\<rparr>) rs"
proof (induction rs arbitrary: fd g)
  case Nil
  show ?case by simp
next
  case (Cons it rest)
  show ?case unfolding writeFilesLoop_Cons Let_def using Cons by simp
qed

lemma writeFiles_frame:
  "rodataHeader (snd (snd (writeFiles open_file fd g))) = rodataHeader g \<and>
   symtabHeader (snd (snd (writeFiles open_file fd g))) = symtabHeader g \<and>
   strtabHeader (snd (snd (writeFiles open_file fd g))) = strtabHeader g \<and>
   map (\<lambda>r. r\<lparr>ignore := b\<rparr>) (resources (snd (snd (writeFiles open_file fd g)))) =
     map (\<lambda>r. r\<lparr>ignore := b\<rparr>) (resources g)"
proof -
  obtain rs fd' g' where w: "writeFilesLoop open_file (resources g) fd g = (rs, fd', g')"
    by (metis prod_cases3)
  have eq: "g'\<lparr>err := []\<rparr> = g\<lparr>err := []\<rparr>"
    using writeFilesLoop_frame[where open_file=open_file and rs="resources g" and fd=fd
        and g=g and e="[]"] w by simp
  have "rodataHeader (g'\<lparr>err := []\<rparr>) = rodataHeader (g\<lparr>err := []\<rparr>)"
    "symtabHeader (g'\<lparr>err := []\<rparr>) = symtabHeader (g\<lparr>err := []\<rparr>)"
    "strtabHeader (g'\<lparr>err := []\<rparr>) = strtabHeader (g\<lparr>err := []\<rparr>)"
    using eq by simp_all
  then have "rodataHeader g' = rodataHeader g" "symtabHeader g' = symtabHeader g"
    "strtabHeader g' = strtabHeader g"
    by simp_all
  moreover have "map (\<lambda>r. r\<lparr>ignore := b\<rparr>) rs = map (\<lambda>r. r\<lparr>ignore := b\<rparr>) (resources g)"
    using writeFilesLoop_fields[where open_file=open_file and rs="resources g" and fd=fd
        and g=g and b=b] w by simp
  ultimately show ?thesis by (simp add: writeFiles_def w)
qed

subsection \<open>A file that does not open\<close>

text \<open>
  C4. After the layout of two resources of 3 and 4 bytes the padding after the first is
  one byte and the second resource is at offset 4. When the file of the first no longer
  opens, the object file receives the four bytes of the second and nothing before them:
  the padding after the first resource is not written.
\<close>

theorem vanished_file_counterexample:
  "map_option
     (\<lambda>(r, g). (padding g 3, map payloadOffset (resources g),
                 written (fst (snd (writeFiles vanished_a empty_object g))),
                 map ignore (resources (snd (snd (writeFiles vanished_a empty_object g))))))
     (patchHeaders linux_amd64 ''/usr/bin/elfrc'' OpenFails (Some amd64_header)
        (with_resources two_resources)) =
   Some (1, [0, 4], ''bbbb'', [True, False])"
  by code_simp

text \<open>
  C4, amended. For a resource whose file does not open, the loop of \<^verbatim>\<open>writeFiles\<close>
  sets \<^verbatim>\<open>ignore\<close>, writes nothing (no payload, no NUL, no padding, whether or not a
  resource follows) and goes on with the next resource at the same place of the
  object file. \<^verbatim>\<open>writeFiles\<close> changes no section header and no field of a resource
  but \<^verbatim>\<open>ignore\<close>, so the sizes of \<^verbatim>\<open>.symtab\<close> and \<^verbatim>\<open>.strtab\<close> and the offsets stay as
  the layout left them.
\<close>

theorem vanished_file_is_skipped:
  assumes "open_file (filename it) = None"
  shows "writeFilesLoop open_file (it # rest) fd g =
           (it\<lparr>ignore := True\<rparr> #
              fst (writeFilesLoop open_file rest fd
                     (g\<lparr>err := err g @ [FailedToOpen (filename it)]\<rparr>)),
            snd (writeFilesLoop open_file rest fd
                   (g\<lparr>err := err g @ [FailedToOpen (filename it)]\<rparr>))) \<and>
         rodataHeader (snd (snd (writeFiles open_file fd g))) = rodataHeader g \<and>
         symtabHeader (snd (snd (writeFiles open_file fd g))) = symtabHeader g \<and>
         strtabHeader (snd (snd (writeFiles open_file fd g))) = strtabHeader g \<and>
         map (\<lambda>r. r\<lparr>ignore := False\<rparr>) (resources (snd (snd (writeFiles open_file fd g)))) =
           map (\<lambda>r. r\<lparr>ignore := False\<rparr>) (resources g)"
proof -
  have "copyFileToFD open_file (filename it) fd g =
      (Error, fd, g\<lparr>err := err g @ [FailedToOpen (filename it)]\<rparr>)"
    using assms by (simp add: copyFileToFD_def)
  then have "writeFilesLoop open_file (it # rest) fd g =
           (it\<lparr>ignore := True\<rparr> #
              fst (writeFilesLoop open_file rest fd
                     (g\<lparr>err := err g @ [FailedToOpen (filename it)]\<rparr>)),
            snd (writeFilesLoop open_file rest fd
                   (g\<lparr>err := err g @ [FailedToOpen (filename it)]\<rparr>)))"
    unfolding writeFilesLoop_Cons by (simp add: Let_def)
  then show ?thesis using writeFiles_frame[where b=False] by blast
qed

theorem vanished_file_is_skipped_witness:
  "vanished_a (filename (binary_resource ''A'' ''a.bin'' 3)) = None \<and>
   writeFilesLoop vanished_a
     (binary_resource ''A'' ''a.bin'' 3 # [binary_resource ''B'' ''b.bin'' 4]) empty_object
     (with_resources two_resources) =
     ((binary_resource ''A'' ''a.bin'' 3)\<lparr>ignore := True\<rparr> #
        fst (writeFilesLoop vanished_a [binary_resource ''B'' ''b.bin'' 4] empty_object
               ((with_resources two_resources)
                  \<lparr>err := err (with_resources two_resources) @
                     [FailedToOpen (filename (binary_resource ''A'' ''a.bin'' 3))]\<rparr>)),
      snd (writeFilesLoop vanished_a [binary_resource ''B'' ''b.bin'' 4] empty_object
             ((with_resources two_resources)
                \<lparr>err := err (with_resources two_resources) @
                   [FailedToOpen (filename (binary_resource ''A'' ''a.bin'' 3))]\<rparr>)))"
proof -
  have h: "vanished_a (filename (binary_resource ''A'' ''a.bin'' 3)) = None"
    by (simp add: vanished_a_def binary_resource_def)
  show ?thesis
    using h vanished_file_is_skipped [where open_file = vanished_a
        and it = "binary_resource ''A'' ''a.bin'' 3"
        and rest = "[binary_resource ''B'' ''b.bin'' 4]"
        and fd = empty_object and g = "with_resources two_resources", OF h]
    by blast
qed

subsection \<open>The flag\<close>

lemma registerResource_appends:
  "\<exists>new. resources (registerResource fresh ty name fn filesize g) = resources g @ [new]"
  by (simp add: registerResource_def Let_def)

lemma finishRecord_appends:
  "\<exists>news. resources (snd (snd (finishRecord env ty g))) = resources g @ news"
proof (cases "store (curFilename g) (curFilenameLen g) (CHR 0x00)")
  case None
  then show ?thesis by (simp add: finishRecord_def)
next
  case (Some fn)
  show ?thesis
  proof (cases "stat_size env (c_str fn)")
    case None
    then show ?thesis using Some by (simp add: finishRecord_def)
  next
    case (Some st_size)
    then show ?thesis
      using \<open>store (curFilename g) (curFilenameLen g) (CHR 0x00) = Some fn\<close>
      by (simp add: finishRecord_def registerResource_def Let_def)
  qed
qed

lemma parseChar_appends:
  "\<exists>news. resources (snd (snd (parseChar env c ty g))) = resources g @ news"
proof (cases "state g")
  case ReadType
  then show ?thesis
    by (simp add: parseChar_def Let_def split: option.splits)
next
  case ReadSymbol
  then show ?thesis
    by (simp add: parseChar_def Let_def split: option.splits)
next
  case ReadFilename
  obtain r ty1 g1 where f: "finishRecord env ty g = (r, ty1, g1)"
    by (cases "finishRecord env ty g") auto
  obtain news where "resources g1 = resources g @ news"
    using finishRecord_appends[of env ty g] f by auto
  then show ?thesis using ReadFilename f
    by (cases r) (simp_all add: parseChar_def Let_def split: option.splits)
qed

lemma parseLoop_appends:
  "\<exists>news. resources (snd (snd (parseLoop env cs ty g))) = resources g @ news"
proof (induction cs arbitrary: ty g)
  case Nil
  show ?case by simp
next
  case (Cons c cs)
  obtain r ty1 g1 where p: "parseChar env c ty g = (r, ty1, g1)"
    by (cases "parseChar env c ty g") auto
  obtain n1 where n1: "resources g1 = resources g @ n1"
    using parseChar_appends[of env c ty g] p by auto
  show ?case
  proof (cases r)
    case Ok
    obtain n2 where "resources (snd (snd (parseLoop env cs ty1 g1))) = resources g1 @ n2"
      using Cons by blast
    then show ?thesis using p Ok n1 by simp
  next
    case Error
    then show ?thesis using p n1 by simp
  next
    case BufferOverrun
    then show ?thesis using p n1 by simp
  qed
qed

lemma parseBytes_appends:
  "\<exists>news. resources (snd (parseBytes env cs g)) = resources g @ news"
  using parseLoop_appends[of env cs TEXT g]
  by (cases "parseLoop env cs TEXT g") (auto simp: parseBytes_def)

lemma parseEOF_appends:
  "\<exists>news. resources (snd (parseEOF env g)) = resources g @ news"
  using finishRecord_appends[of env TEXT g]
  by (cases "state g"; cases "finishRecord env TEXT g") (auto simp: parseEOF_def)

lemma sizeLoop_ignore: "map ignore (fst (sizeLoop pf g rs sizes)) = map ignore rs"
proof (induction rs arbitrary: sizes)
  case Nil
  show ?case by simp
next
  case (Cons it rest)
  obtain p sy st where s: "sizes = (p, sy, st)" by (cases sizes) auto
  show ?case unfolding s sizeLoop_Cons using Cons by (simp add: Let_def)
qed

lemma patchHeaders_ignore:
  "\<exists>r g'. patchHeaders pf pathToSelf own archhdr g = Some (r, g') \<and>
           map ignore (resources g') = map ignore (resources g)"
proof (cases "archHeader pathToSelf own archhdr")
  case (Inl m)
  then show ?thesis by (simp add: patchHeaders_def)
next
  case (Inr h)
  obtain g' p sy st where run: "patchHeaders pf pathToSelf own archhdr g = Some (Ok, g')"
    and sl: "sizeLoop pf g' (resources g) (0, of_nat (length symtabData * sizeof_Sym pf), 1) =
       (resources g', p, sy, st)"
    using patchHeaders_layout[OF Inr, of pf g] by blast
  have "map ignore (resources g') = map ignore (resources g)"
    using sizeLoop_ignore[of pf g' "resources g"
        "(0, of_nat (length symtabData * sizeof_Sym pf), 1)"] sl by simp
  then show ?thesis using run by blast
qed

lemma registerResource_ignore:
  "ignore (last (resources (registerResource fresh ty name fn filesize g))) = ignore fresh"
  by (simp add: registerResource_def Let_def)

text \<open>
  C8. \<^verbatim>\<open>registerResource\<close> does not store \<^verbatim>\<open>ignore\<close>: the flag of a new resource is
  what the block of \<^verbatim>\<open>malloc\<close> held, here \<^verbatim>\<open>TRUE\<close>. And \<^verbatim>\<open>writeFiles\<close> sets the flag
  of a resource whose file opens but cannot be read.
\<close>

theorem flag_at_registration_counterexample:
  "map ignore (resources (registerResource stale TEXT ''A'' ''a.txt'' 2 (with_resources []))) =
     [True] \<and>
   fst (copyFileToFD unreadable ''a.bin'' empty_object
          (with_resources [binary_resource ''A'' ''a.bin'' 3])) = Error \<and>
   unreadable ''a.bin'' = Some \<lparr>reads = [ReadFailed], close_ok = True\<rparr> \<and>
   map ignore (resources (snd (snd (writeFiles unreadable empty_object
                                      (with_resources [binary_resource ''A'' ''a.bin'' 3]))))) =
     [True]"
  by code_simp

text \<open>
  C8, amended. Registering a resource and parsing only append to the list of resources,
  and \<^verbatim>\<open>patchHeaders\<close> returns with every flag as it was. The loop of \<^verbatim>\<open>writeFiles\<close>
  sets the flag of the resource it is at to whether \<^verbatim>\<open>copyFileToFD\<close> returned -1 for
  it (the file did not open, a \<^verbatim>\<open>read\<close> or a \<^verbatim>\<open>write\<close> failed, or \<^verbatim>\<open>close\<close> did),
  goes on in the same way with the rest, and changes no other field.
\<close>

theorem only_the_emitter_writes_the_flag:
  "(\<exists>new. resources (registerResource fresh ty name fn filesize g) = resources g @ [new]) \<and>
   (\<exists>news. resources (snd (parseResourceFileData env buffer g)) = resources g @ news) \<and>
   (\<exists>r g'. patchHeaders pf pathToSelf own archhdr g = Some (r, g') \<and>
            map ignore (resources g') = map ignore (resources g)) \<and>
   ignore (hd (fst (writeFilesLoop open_file (it # rest) fd g))) =
     (fst (copyFileToFD open_file (filename it) fd g) = Error) \<and>
   (\<exists>fd' g'. tl (fst (writeFilesLoop open_file (it # rest) fd g)) =
              fst (writeFilesLoop open_file rest fd' g')) \<and>
   map (\<lambda>r. r\<lparr>ignore := False\<rparr>) (fst (writeFilesLoop open_file rs fd g)) =
     map (\<lambda>r. r\<lparr>ignore := False\<rparr>) rs"
proof -
  have parse: "\<exists>news. resources (snd (parseResourceFileData env buffer g)) = resources g @ news"
    using parseBytes_appends parseEOF_appends
    by (cases buffer) (simp_all add: parseResourceFileData_def)
  have hd: "ignore (hd (fst (writeFilesLoop open_file (it # rest) fd g))) =
      (fst (copyFileToFD open_file (filename it) fd g) = Error)"
    unfolding writeFilesLoop_Cons by (simp add: Let_def)
  have tl: "\<exists>fd' g'. tl (fst (writeFilesLoop open_file (it # rest) fd g)) =
      fst (writeFilesLoop open_file rest fd' g')"
    unfolding writeFilesLoop_Cons by (simp add: Let_def) blast
  show ?thesis
    using registerResource_appends parse patchHeaders_ignore hd tl writeFilesLoop_fields
    by blast
qed

end
